theory Spec2Isabelle
  imports Main "HOL-Library.AList" "HOL-Library.Char_ord" "HOL-Library.List_Lexorder"
    "HOL-Library.Sublist"
begin

section \<open>Values shared by the storage hierarchy\<close>

text \<open>
  A path (\<open>pathlib.Path\<close>) is the list of its components; \<open>folder / name\<close> adds one
  component. \<open>Path s\<close> for a string \<open>s\<close> splits at the separator and drops empty and
  \<open>.\<close> components, keeping a leading separator as the anchor.
\<close>

type_synonym path = "string list"

definition path_join :: "path \<Rightarrow> string \<Rightarrow> path" where
  "path_join p s = p @ [s]"

fun split_sep :: "string \<Rightarrow> string \<Rightarrow> string list" where
  "split_sep acc [] = [rev acc]"
| "split_sep acc (c # cs) =
     (if c = CHR ''/'' then rev acc # split_sep [] cs else split_sep (c # acc) cs)"

definition Path :: "string \<Rightarrow> path" where
  "Path s = (if s \<noteq> [] \<and> hd s = CHR ''/'' then [''/''] else []) @
            filter (\<lambda>c. c \<noteq> [] \<and> c \<noteq> ''.'') (split_sep [] s)"

text \<open>The exceptions the modelled code raises, with their messages.\<close>

datatype error =
    ValueError string
  | TypeError string
  | AttributeError string
  | SourceError string

text \<open>
  The model classes imported by \<open>store.py\<close> and \<open>catalog.py\<close>; any other subclass of
  \<open>BaseObject\<close> is an \<open>OtherModel\<close>.
\<close>

datatype model = Currency | CurrencyHoliday | Market | MarketHoliday | Schedule
  | OtherModel string

text \<open>
  A dynamically typed argument: \<open>None\<close>, a value of the kind the callee accepts, or a
  value of another kind.
\<close>

datatype 'a pyarg = PyNone | PyVal 'a | PyOther

datatype root_arg = RootNone | RootStr string | RootPath path | RootOther

section \<open>SourceFile\<close>

record source_file =
  sf_name :: string
  sf_root :: path
  sf_model :: model

text \<open>
  \<open>SourceFile.__init__\<close>: the name is checked first, then the root, then the model;
  \<open>PyOther\<close> as model stands for a class that is not a \<open>BaseObject\<close>.
\<close>

definition SourceFile_init :: "root_arg \<Rightarrow> string pyarg \<Rightarrow> model pyarg \<Rightarrow> error + source_file" where
  "SourceFile_init root name model =
     (case name of
        PyNone \<Rightarrow> Inl (ValueError ''name is missing'')
      | PyOther \<Rightarrow> Inl (TypeError ''name must be str'')
      | PyVal n \<Rightarrow>
          (case root of
             RootNone \<Rightarrow> Inl (ValueError ''root is missing'')
           | RootOther \<Rightarrow> Inl (TypeError ''root must be str or Path'')
           | _ \<Rightarrow>
               (let r = (case root of RootStr s \<Rightarrow> Path s | RootPath p \<Rightarrow> p | _ \<Rightarrow> [])
                in case model of
                     PyNone \<Rightarrow> Inl (ValueError ''model is missing'')
                   | PyOther \<Rightarrow> Inl (TypeError ''model must be a BaseObject'')
                   | PyVal m \<Rightarrow> Inr \<lparr>sf_name = n, sf_root = r, sf_model = m\<rparr>)))"

text \<open>\<open>str.replace\<close> of one character by one character.\<close>

definition replace :: "char \<Rightarrow> char \<Rightarrow> string \<Rightarrow> string" where
  "replace old new s = map (\<lambda>c. if c = old then new else c) s"

definition SourceFile_name :: "source_file \<Rightarrow> string" where
  "SourceFile_name sf = replace CHR ''-'' CHR ''_'' (sf_name sf)"

definition SourceFile_filename :: "source_file \<Rightarrow> string" where
  "SourceFile_filename sf = replace CHR ''_'' CHR ''-'' (sf_name sf) @ ''.csv''"

definition SourceFile_path :: "source_file \<Rightarrow> path" where
  "SourceFile_path sf = path_join (sf_root sf) (SourceFile_filename sf)"

text \<open>
  Two names differ only in hyphens versus underscores when they have the same length and,
  position by position, carry the same character or two characters among \<open>-\<close> and \<open>_\<close>.
\<close>

definition same_up_to_separators :: "string \<Rightarrow> string \<Rightarrow> bool" where
  "same_up_to_separators a b =
     list_all2 (\<lambda>x y. x = y \<or> (x \<in> {CHR ''-'', CHR ''_''} \<and> y \<in> {CHR ''-'', CHR ''_''})) a b"

section \<open>The file system\<close>

text \<open>
  A cluster file is the list of its lines; \<open>Cluster.append\<close> writes one line, the JSON
  array \<open>[key, tuple]\<close>, which is kept here as the pair of the key (\<open>None\<close> for JSON
  \<open>null\<close>) and the dictionary. Directories are the set of created paths. The operations
  are the \<open>pathlib\<close> calls of \<open>store.py\<close>, taken on their successful path:
  \<open>mkdir(exist_ok=True)\<close>, \<open>touch(exist_ok=True)\<close>, \<open>unlink(missing_ok=True)\<close> and
  \<open>open(location, "a")\<close> followed by the writes.
\<close>

type_synonym 'd line = "string option \<times> 'd"

record 'd filesystem =
  dirs :: "path set"
  files :: "path \<rightharpoonup> 'd line list"

definition mkdir :: "path \<Rightarrow> 'd filesystem \<Rightarrow> 'd filesystem" where
  "mkdir p fs = fs\<lparr>dirs := insert p (dirs fs)\<rparr>"

definition touch_file :: "path \<Rightarrow> 'd filesystem \<Rightarrow> 'd filesystem" where
  "touch_file p fs =
     (case files fs p of None \<Rightarrow> fs\<lparr>files := (files fs)(p \<mapsto> [])\<rparr> | Some _ \<Rightarrow> fs)"

definition unlink :: "path \<Rightarrow> 'd filesystem \<Rightarrow> 'd filesystem" where
  "unlink p fs = fs\<lparr>files := (files fs)(p := None)\<rparr>"

definition append_line :: "path \<Rightarrow> 'd line \<Rightarrow> 'd filesystem \<Rightarrow> 'd filesystem" where
  "append_line p l fs =
     fs\<lparr>files := (files fs)(p \<mapsto> (case files fs p of None \<Rightarrow> [] | Some ls \<Rightarrow> ls) @ [l])\<rparr>"

section \<open>Registry\<close>

text \<open>
  \<open>Registry._resources\<close> is a Python dictionary: an association list in insertion order,
  read with \<open>map_of\<close> and written with \<open>AList.update\<close> (an existing key keeps its place, a
  new key goes to the end). \<open>slugify\<close> comes from \<open>util.py\<close>, which is not part of the
  sources at hand, and is a parameter. \<open>create\<close> is the abstract method: it receives the
  slug and the world it acts on and returns the resource and the new world.
\<close>

definition Registry_get ::
  "(string \<Rightarrow> string) \<Rightarrow> (string \<Rightarrow> 'w \<Rightarrow> 'r \<times> 'w) \<Rightarrow> string \<Rightarrow>
   (string \<times> 'r) list \<times> 'w \<Rightarrow> 'r \<times> (string \<times> 'r) list \<times> 'w" where
  "Registry_get slugify create name s =
     (let slug = slugify name; (resources, w) = s in
      case map_of resources slug of
        Some resource \<Rightarrow> (resource, resources, w)
      | None \<Rightarrow>
          (let (resource, w') = create slug w
           in (resource, AList.update slug resource resources, w')))"

definition Registry_iter :: "(string \<times> 'r) list \<Rightarrow> 'r list" where
  "Registry_iter resources = map snd resources"

section \<open>Cluster and ClusterRegistry\<close>

record cluster =
  location :: path

definition Cluster_touch :: "cluster \<Rightarrow> 'd filesystem \<Rightarrow> 'd filesystem" where
  "Cluster_touch c fs = touch_file (location c) fs"

definition Cluster_delete :: "cluster \<Rightarrow> 'd filesystem \<Rightarrow> 'd filesystem" where
  "Cluster_delete c fs = unlink (location c) fs"

definition Cluster_append :: "cluster \<Rightarrow> string option \<Rightarrow> 'd \<Rightarrow> 'd filesystem \<Rightarrow> 'd filesystem" where
  "Cluster_append c key tuple fs = append_line (location c) (key, tuple) fs"

record cluster_registry =
  cl_resources :: "(string \<times> cluster) list"
  cl_folder :: path

definition ClusterRegistry_init :: "path \<Rightarrow> cluster_registry" where
  "ClusterRegistry_init folder = \<lparr>cl_resources = [], cl_folder = folder\<rparr>"

definition ClusterRegistry_create :: "path \<Rightarrow> string \<Rightarrow> 'd filesystem \<Rightarrow> cluster \<times> 'd filesystem" where
  "ClusterRegistry_create folder slug fs =
     (let location = path_join folder (slug @ ''.dat'');
          cluster = \<lparr>location = location\<rparr>
      in (cluster, Cluster_touch cluster fs))"

definition ClusterRegistry_get ::
  "(string \<Rightarrow> string) \<Rightarrow> string \<Rightarrow> cluster_registry \<times> 'd filesystem \<Rightarrow>
   cluster \<times> cluster_registry \<times> 'd filesystem" where
  "ClusterRegistry_get slugify name s =
     (let (reg, fs) = s;
          (c, resources, fs') =
             Registry_get slugify (ClusterRegistry_create (cl_folder reg)) name (cl_resources reg, fs)
      in (c, reg\<lparr>cl_resources := resources\<rparr>, fs'))"

section \<open>Collection and CollectionRegistry\<close>

record collection =
  folder :: path
  clusters :: cluster_registry

definition Collection_init :: "path \<Rightarrow> collection" where
  "Collection_init f = \<lparr>folder = f, clusters = ClusterRegistry_init f\<rparr>"

definition Collection_touch :: "collection \<Rightarrow> 'd filesystem \<Rightarrow> 'd filesystem" where
  "Collection_touch c fs = mkdir (folder c) fs"

text \<open>
  \<open>Collection.clear\<close>: the loop runs over the clusters the registry holds, then the
  collection gets a new, empty registry on its own folder.
\<close>

definition Collection_clear :: "collection \<Rightarrow> 'd filesystem \<Rightarrow> collection \<times> 'd filesystem" where
  "Collection_clear c fs =
     (c\<lparr>clusters := ClusterRegistry_init (folder c)\<rparr>,
      fold Cluster_delete (Registry_iter (cl_resources (clusters c))) fs)"

record collection_registry =
  co_resources :: "(string \<times> collection) list"
  co_root :: path

definition CollectionRegistry_init :: "path \<Rightarrow> collection_registry" where
  "CollectionRegistry_init r = \<lparr>co_resources = [], co_root = r\<rparr>"

definition CollectionRegistry_create :: "path \<Rightarrow> string \<Rightarrow> 'd filesystem \<Rightarrow> collection \<times> 'd filesystem" where
  "CollectionRegistry_create r slug fs =
     (let f = path_join r slug;
          c = Collection_init f
      in (c, Collection_touch c fs))"

definition CollectionRegistry_get ::
  "(string \<Rightarrow> string) \<Rightarrow> string \<Rightarrow> collection_registry \<times> 'd filesystem \<Rightarrow>
   collection \<times> collection_registry \<times> 'd filesystem" where
  "CollectionRegistry_get slugify name s =
     (let (reg, fs) = s;
          (c, resources, fs') =
             Registry_get slugify (CollectionRegistry_create (co_root reg)) name (co_resources reg, fs)
      in (c, reg\<lparr>co_resources := resources\<rparr>, fs'))"

section \<open>Store\<close>

record store =
  root :: path
  collections :: collection_registry

definition Store_init :: "path \<Rightarrow> store" where
  "Store_init r = \<lparr>root = r, collections = CollectionRegistry_init r\<rparr>"

definition Store_touch :: "store \<Rightarrow> 'd filesystem \<Rightarrow> 'd filesystem" where
  "Store_touch st fs = mkdir (root st) fs"

text \<open>
  A collection is an object the store's registry refers to: a method that changes the
  collection (its cluster registry) changes what the registry holds under that slug.
  \<open>put_collection\<close> writes the changed collection back.
\<close>

definition put_collection :: "string \<Rightarrow> collection \<Rightarrow> store \<Rightarrow> store" where
  "put_collection slug c st =
     st\<lparr>collections := (collections st)\<lparr>co_resources :=
          AList.update slug c (co_resources (collections st))\<rparr>\<rparr>"

definition Store_clear_collection ::
  "(string \<Rightarrow> string) \<Rightarrow> string \<Rightarrow> store \<times> 'd filesystem \<Rightarrow> store \<times> 'd filesystem" where
  "Store_clear_collection slugify name s =
     (let (st, fs) = s;
          (collection_obj, reg, fs1) = CollectionRegistry_get slugify name (collections st, fs);
          (collection_obj', fs2) = Collection_clear collection_obj fs1
      in (put_collection (slugify name) collection_obj' (st\<lparr>collections := reg\<rparr>), fs2))"

text \<open>
  \<open>Store.store_item\<close>; \<open>to_dict\<close> is the method of the item's model class
  (\<open>base.py\<close>, not part of the sources at hand) and is a parameter.
\<close>

definition Store_store_item ::
  "(string \<Rightarrow> string) \<Rightarrow> ('i \<Rightarrow> 'd) \<Rightarrow> 'i \<Rightarrow> string \<Rightarrow> string option \<Rightarrow> string option \<Rightarrow>
   store \<times> 'd filesystem \<Rightarrow> store \<times> 'd filesystem" where
  "Store_store_item slugify to_dict item collection cluster key s =
     (let (st, fs) = s;
          (collection_obj, reg, fs1) = CollectionRegistry_get slugify collection (collections st, fs);
          cluster' = (case cluster of None \<Rightarrow> ''unique'' | Some c \<Rightarrow> c);
          (cluster_obj, creg, fs2) = ClusterRegistry_get slugify cluster' (clusters collection_obj, fs1)
      in (put_collection (slugify collection) (collection_obj\<lparr>clusters := creg\<rparr>)
            (st\<lparr>collections := reg\<rparr>),
          Cluster_append cluster_obj key (to_dict item) fs2))"

section \<open>DeclaredFile\<close>

text \<open>
  Model instances (\<open>currency.py\<close>, \<open>market.py\<close> and \<open>schedule.py\<close> are not part of the
  sources at hand) are the attributes the resolvers read; \<open>fin_id_str\<close> is
  \<open>str(item.fin_id)\<close> and \<open>fin_id_country\<close> is \<open>item.fin_id.country\<close>.
\<close>

record item =
  code :: string
  currency_code :: string
  date :: string
  fin_id_country :: string
  fin_id_str :: string

type_synonym 'd world = "store \<times> 'd filesystem"

text \<open>
  A descriptor class: the module and class name that identify it, the class attributes
  \<open>name\<close> and \<open>model\<close> as attribute lookup finds them on the class (\<open>None\<close> is the
  default of the base class), and its methods.
\<close>

datatype py_module = StoreModule | CatalogModule

record 'd declared_file =
  df_module :: py_module
  df_class :: string
  df_name :: "string option"
  df_model :: "model option"
  pre_ingest :: "'d world \<Rightarrow> 'd world"
  resolve_collection :: "item \<Rightarrow> string"
  resolve_cluster :: "item \<Rightarrow> string option"
  resolve_key :: "item \<Rightarrow> string option"

type_synonym 'd known_files = "(string \<times> 'd declared_file) list"

text \<open>
  \<open>DeclaredFile.__init_subclass__\<close>, the same in both modules: it runs when the class
  statement of a subclass is executed, on the table \<open>known_files\<close> of the base class.
\<close>

definition DeclaredFile_init_subclass ::
  "'d declared_file \<Rightarrow> 'd known_files \<Rightarrow> error + 'd known_files" where
  "DeclaredFile_init_subclass cls known =
     (case df_name cls of
        None \<Rightarrow> Inl (ValueError ''name must be defined'')
      | Some n \<Rightarrow>
          (case df_model cls of
             None \<Rightarrow> Inl (ValueError ''model must be defined'')
           | Some _ \<Rightarrow> Inr (AList.update n cls known)))"

text \<open>The class statements of a module run in order; the first that raises ends the import.\<close>

fun define_classes :: "'d declared_file list \<Rightarrow> 'd known_files \<Rightarrow> error + 'd known_files" where
  "define_classes [] known = Inr known"
| "define_classes (cls # rest) known =
     (case DeclaredFile_init_subclass cls known of
        Inl e \<Rightarrow> Inl e
      | Inr known' \<Rightarrow> define_classes rest known')"

definition pyarg_of :: "'a option \<Rightarrow> 'a pyarg" where
  "pyarg_of x = (case x of None \<Rightarrow> PyNone | Some v \<Rightarrow> PyVal v)"

definition DeclaredFile_init :: "'d declared_file \<Rightarrow> root_arg \<Rightarrow> error + source_file" where
  "DeclaredFile_init cls rt = SourceFile_init rt (pyarg_of (df_name cls)) (pyarg_of (df_model cls))"

subsection \<open>The descriptors of store.py\<close>

definition store_CurrencyFile :: "'d declared_file" where
  "store_CurrencyFile =
     \<lparr>df_module = StoreModule, df_class = ''CurrencyFile'',
      df_name = Some ''currencies'', df_model = Some Currency,
      pre_ingest = (\<lambda>s. s),
      resolve_collection = (\<lambda>i. ''currencies''),
      resolve_cluster = (\<lambda>i. None),
      resolve_key = (\<lambda>i. Some (code i))\<rparr>"

definition store_CurrencyHolidayFile :: "'d declared_file" where
  "store_CurrencyHolidayFile =
     \<lparr>df_module = StoreModule, df_class = ''CurrencyHolidayFile'',
      df_name = Some ''currency_holidays'', df_model = Some CurrencyHoliday,
      pre_ingest = (\<lambda>s. s),
      resolve_collection = (\<lambda>i. ''currency_holidays''),
      resolve_cluster = (\<lambda>i. Some (currency_code i)),
      resolve_key = (\<lambda>i. Some (date i))\<rparr>"

definition store_MarketFile :: "'d declared_file" where
  "store_MarketFile =
     \<lparr>df_module = StoreModule, df_class = ''MarketFile'',
      df_name = Some ''markets'', df_model = Some Market,
      pre_ingest = (\<lambda>s. s),
      resolve_collection = (\<lambda>i. ''markets''),
      resolve_cluster = (\<lambda>i. Some (fin_id_country i)),
      resolve_key = (\<lambda>i. Some (fin_id_str i))\<rparr>"

definition store_MarketHolidayFile :: "'d declared_file" where
  "store_MarketHolidayFile =
     \<lparr>df_module = StoreModule, df_class = ''MarketHolidayFile'',
      df_name = Some ''holidays'', df_model = Some MarketHoliday,
      pre_ingest = (\<lambda>s. s),
      resolve_collection = (\<lambda>i. ''holidays''),
      resolve_cluster = (\<lambda>i. Some (fin_id_str i)),
      resolve_key = (\<lambda>i. Some (date i))\<rparr>"

definition store_ScheduleFile :: "(string \<Rightarrow> string) \<Rightarrow> 'd declared_file" where
  "store_ScheduleFile slugify =
     \<lparr>df_module = StoreModule, df_class = ''ScheduleFile'',
      df_name = Some ''schedules'', df_model = Some Schedule,
      pre_ingest = Store_clear_collection slugify ''schedules'',
      resolve_collection = (\<lambda>i. ''schedules''),
      resolve_cluster = (\<lambda>i. Some (fin_id_str i)),
      resolve_key = (\<lambda>i. None)\<rparr>"

definition store_classes :: "(string \<Rightarrow> string) \<Rightarrow> 'd declared_file list" where
  "store_classes slugify =
     [store_CurrencyFile, store_CurrencyHolidayFile, store_MarketFile,
      store_MarketHolidayFile, store_ScheduleFile slugify]"

subsection \<open>The descriptors of catalog.py\<close>

text \<open>
  \<open>catalog.py\<close> defines its own base class \<open>DeclaredFile\<close>, with its own \<open>known_files\<close>,
  and five subclasses of it. Its \<open>ingest\<close> takes the collection from \<open>self.name\<close>.
\<close>

definition catalog_CurrencyFile :: "'d declared_file" where
  "catalog_CurrencyFile =
     \<lparr>df_module = CatalogModule, df_class = ''CurrencyFile'',
      df_name = Some ''currencies'', df_model = Some Currency,
      pre_ingest = (\<lambda>s. s),
      resolve_collection = (\<lambda>i. ''currencies''),
      resolve_cluster = (\<lambda>i. None),
      resolve_key = (\<lambda>i. Some (code i))\<rparr>"

definition catalog_CurrencyHolidayFile :: "'d declared_file" where
  "catalog_CurrencyHolidayFile =
     \<lparr>df_module = CatalogModule, df_class = ''CurrencyHolidayFile'',
      df_name = Some ''currency_holidays'', df_model = Some CurrencyHoliday,
      pre_ingest = (\<lambda>s. s),
      resolve_collection = (\<lambda>i. ''currency_holidays''),
      resolve_cluster = (\<lambda>i. Some (currency_code i)),
      resolve_key = (\<lambda>i. Some (date i))\<rparr>"

definition catalog_MarketFile :: "'d declared_file" where
  "catalog_MarketFile =
     \<lparr>df_module = CatalogModule, df_class = ''MarketFile'',
      df_name = Some ''markets'', df_model = Some Market,
      pre_ingest = (\<lambda>s. s),
      resolve_collection = (\<lambda>i. ''markets''),
      resolve_cluster = (\<lambda>i. Some (fin_id_country i)),
      resolve_key = (\<lambda>i. Some (fin_id_str i))\<rparr>"

definition catalog_MarketHolidayFile :: "'d declared_file" where
  "catalog_MarketHolidayFile =
     \<lparr>df_module = CatalogModule, df_class = ''MarketHolidayFile'',
      df_name = Some ''holidays'', df_model = Some MarketHoliday,
      pre_ingest = (\<lambda>s. s),
      resolve_collection = (\<lambda>i. ''holidays''),
      resolve_cluster = (\<lambda>i. Some (fin_id_str i)),
      resolve_key = (\<lambda>i. Some (date i))\<rparr>"

definition catalog_ScheduleFile :: "(string \<Rightarrow> string) \<Rightarrow> 'd declared_file" where
  "catalog_ScheduleFile slugify =
     \<lparr>df_module = CatalogModule, df_class = ''ScheduleFile'',
      df_name = Some ''schedules'', df_model = Some Schedule,
      pre_ingest = Store_clear_collection slugify ''schedules'',
      resolve_collection = (\<lambda>i. ''schedules''),
      resolve_cluster = (\<lambda>i. Some (fin_id_str i)),
      resolve_key = (\<lambda>i. None)\<rparr>"

definition catalog_classes :: "(string \<Rightarrow> string) \<Rightarrow> 'd declared_file list" where
  "catalog_classes slugify =
     [catalog_CurrencyFile, catalog_CurrencyHolidayFile, catalog_MarketFile,
      catalog_MarketHolidayFile, catalog_ScheduleFile slugify]"

text \<open>
  The two tables of the running program. Importing \<open>catalog.py\<close> imports \<open>store.py\<close>
  first; each module fills the \<open>known_files\<close> of its own base class, empty at the start.
\<close>

record 'd tables =
  store_known_files :: "'d known_files"
  catalog_known_files :: "'d known_files"

definition import_store :: "(string \<Rightarrow> string) \<Rightarrow> 'd tables \<Rightarrow> error + 'd tables" where
  "import_store slugify t =
     (case define_classes (store_classes slugify) (store_known_files t) of
        Inl e \<Rightarrow> Inl e
      | Inr known \<Rightarrow> Inr (t\<lparr>store_known_files := known\<rparr>))"

definition import_catalog :: "(string \<Rightarrow> string) \<Rightarrow> 'd tables \<Rightarrow> error + 'd tables" where
  "import_catalog slugify t =
     (case import_store slugify t of
        Inl e \<Rightarrow> Inl e
      | Inr t' \<Rightarrow>
          (case define_classes (catalog_classes slugify) (catalog_known_files t') of
             Inl e \<Rightarrow> Inl e
           | Inr known \<Rightarrow> Inr (t'\<lparr>catalog_known_files := known\<rparr>)))"

subsection \<open>Ingestion (store.py)\<close>

text \<open>
  \<open>load\<close> yields what \<open>model.from_csv(path)\<close> yields. \<open>from_csv\<close> (\<open>base.py\<close>, not part
  of the sources at hand) is a parameter: the items it yields, in order, and the exception
  that ends the iteration, if one does. A missing file is the empty list with an
  exception. The loop of \<open>ingest\<close> stores every item as it is yielded, so the items
  before an exception are stored when it is raised.
\<close>

definition DeclaredFile_ingest ::
  "(string \<Rightarrow> string) \<Rightarrow> (item \<Rightarrow> 'd) \<Rightarrow> (model \<Rightarrow> path \<Rightarrow> item list \<times> error option) \<Rightarrow>
   'd declared_file \<Rightarrow> source_file \<Rightarrow> 'd world \<Rightarrow> error option \<times> 'd world" where
  "DeclaredFile_ingest slugify to_dict from_csv cls self s =
     (let s1 = pre_ingest cls s;
          (loaded, raised) = from_csv (sf_model self) (SourceFile_path self)
      in (raised,
          fold (\<lambda>current. Store_store_item slugify to_dict current
                  (resolve_collection cls current) (resolve_cluster cls current)
                  (resolve_key cls current))
            loaded s1))"

fun Store_ingest_all ::
  "(string \<Rightarrow> string) \<Rightarrow> (item \<Rightarrow> 'd) \<Rightarrow> (model \<Rightarrow> path \<Rightarrow> item list \<times> error option) \<Rightarrow>
   'd known_files \<Rightarrow> root_arg \<Rightarrow> 'd world \<Rightarrow> error option \<times> 'd world" where
  "Store_ingest_all slugify to_dict from_csv [] data_folder s = (None, s)"
| "Store_ingest_all slugify to_dict from_csv ((n, declared_class) # rest) data_folder s =
     (case DeclaredFile_init declared_class data_folder of
        Inl e \<Rightarrow> (Some e, s)
      | Inr source \<Rightarrow>
          (case DeclaredFile_ingest slugify to_dict from_csv declared_class source s of
             (Some e, s') \<Rightarrow> (Some e, s')
           | (None, s') \<Rightarrow> Store_ingest_all slugify to_dict from_csv rest data_folder s'))"

section \<open>Catalog\<close>

text \<open>
  Modelled from the spec: \<open>Cluster.load_all\<close>, which \<open>catalog.py\<close> calls and the
  \<open>Cluster\<close> of \<open>store.py\<close> at hand does not define. It reads the file from the start,
  replays every line and builds an ordered mapping from key to record, in which the later
  of two lines with the same key wins. The mapping is an association list with the
  updates of a dictionary; a cluster whose file does not exist cannot be read.
\<close>

definition replay :: "'d line list \<Rightarrow> (string option \<times> 'd) list" where
  "replay ls = fold (\<lambda>(key, tuple) m. AList.update key tuple m) ls []"

definition Cluster_load_all :: "cluster \<Rightarrow> 'd filesystem \<Rightarrow> error + (string option \<times> 'd) list" where
  "Cluster_load_all c fs =
     (case files fs (location c) of
        None \<Rightarrow> Inl (SourceError ''no such file'')
      | Some ls \<Rightarrow> Inr (replay ls))"

text \<open>
  \<open>Catalog.find_model_collection\<close> on the table of \<open>catalog.py\<close>; it returns the name with
  the collection, under whose slug the store's registry holds it, and \<open>None\<close> when the
  loop ends without a match.
\<close>

fun find_model_collection ::
  "(string \<Rightarrow> string) \<Rightarrow> 'd known_files \<Rightarrow> model \<Rightarrow> 'd world \<Rightarrow>
   (string \<times> collection \<times> 'd world) option" where
  "find_model_collection slugify [] m s = None"
| "find_model_collection slugify ((n, declared) # rest) m s =
     (if df_model declared = Some m
      then (let (st, fs) = s;
                (c, reg, fs') = CollectionRegistry_get slugify n (collections st, fs)
            in Some (n, c, (st\<lparr>collections := reg\<rparr>, fs')))
      else find_model_collection slugify rest m s)"

text \<open>\<open>cluster or "default"\<close>: \<open>None\<close> and the empty string are both false.\<close>

definition or_default :: "string option \<Rightarrow> string" where
  "or_default cluster = (case cluster of None \<Rightarrow> ''default'' | Some c \<Rightarrow> if c = [] then ''default'' else c)"

text \<open>
  The loops of \<open>get\<close> and \<open>filter\<close> over \<open>cluster_data.items()\<close>. \<open>from_tuple\<close>
  (\<open>base.py\<close>) is a parameter. \<open>filter\<close> is a generator: its result is what it yields and
  the exception that ends it, if one does; comparing a key that is \<open>None\<close> with a string
  raises \<open>TypeError\<close>. Strings are compared lexicographically, character by character.
\<close>

fun get_loop :: "('d \<Rightarrow> 'b) \<Rightarrow> string \<Rightarrow> (string option \<times> 'd) list \<Rightarrow> 'b option" where
  "get_loop from_tuple key [] = None"
| "get_loop from_tuple key ((current_key, data) # rest) =
     (if current_key = Some key then Some (from_tuple data) else get_loop from_tuple key rest)"

fun filter_loop ::
  "('d \<Rightarrow> 'b) \<Rightarrow> string \<Rightarrow> string \<Rightarrow> (string option \<times> 'd) list \<Rightarrow> 'b list \<times> error option" where
  "filter_loop from_tuple key_start key_end [] = ([], None)"
| "filter_loop from_tuple key_start key_end ((current_key, data) # rest) =
     (case current_key of
        None \<Rightarrow> ([], Some (TypeError ''>= not supported between NoneType and str''))
      | Some k \<Rightarrow>
          (if k \<ge> key_start \<and> k \<le> key_end
           then (let (ys, e) = filter_loop from_tuple key_start key_end rest
                 in (from_tuple data # ys, e))
           else filter_loop from_tuple key_start key_end rest))"

text \<open>
  \<open>Catalog.get\<close> and \<open>Catalog.filter\<close>. When no descriptor has the model,
  \<open>find_model_collection\<close> returns \<open>None\<close> and \<open>collection.clusters\<close> raises
  \<open>AttributeError\<close>. The exception of \<open>filter\<close> before its first item is the first
  component; the exception during the iteration is in the second.
\<close>

definition Catalog_get ::
  "(string \<Rightarrow> string) \<Rightarrow> 'd known_files \<Rightarrow> ('d \<Rightarrow> 'b) \<Rightarrow> model \<Rightarrow> string \<Rightarrow> string option \<Rightarrow>
   'd world \<Rightarrow> (error + 'b option) \<times> 'd world" where
  "Catalog_get slugify known from_tuple m key cluster s =
     (case find_model_collection slugify known m s of
        None \<Rightarrow> (Inl (AttributeError ''NoneType object has no attribute clusters''), s)
      | Some (n, collection_obj, (st, fs)) \<Rightarrow>
          (let cluster_name = or_default cluster;
               (cluster_obj, creg, fs') = ClusterRegistry_get slugify cluster_name (clusters collection_obj, fs);
               s' = (put_collection (slugify n) (collection_obj\<lparr>clusters := creg\<rparr>) st, fs')
           in case Cluster_load_all cluster_obj fs' of
                Inl e \<Rightarrow> (Inl e, s')
              | Inr cluster_data \<Rightarrow> (Inr (get_loop from_tuple key cluster_data), s')))"

definition Catalog_filter ::
  "(string \<Rightarrow> string) \<Rightarrow> 'd known_files \<Rightarrow> ('d \<Rightarrow> 'b) \<Rightarrow> model \<Rightarrow> string \<Rightarrow> string \<Rightarrow> string option \<Rightarrow>
   'd world \<Rightarrow> (error + 'b list \<times> error option) \<times> 'd world" where
  "Catalog_filter slugify known from_tuple m key_start key_end cluster s =
     (case find_model_collection slugify known m s of
        None \<Rightarrow> (Inl (AttributeError ''NoneType object has no attribute clusters''), s)
      | Some (n, collection_obj, (st, fs)) \<Rightarrow>
          (let cluster_name = or_default cluster;
               (cluster_obj, creg, fs') = ClusterRegistry_get slugify cluster_name (clusters collection_obj, fs);
               s' = (put_collection (slugify n) (collection_obj\<lparr>clusters := creg\<rparr>) st, fs')
           in case Cluster_load_all cluster_obj fs' of
                Inl e \<Rightarrow> (Inl e, s')
              | Inr cluster_data \<Rightarrow> (Inr (filter_loop from_tuple key_start key_end cluster_data), s')))"

section \<open>Counting the calls of create\<close>

text \<open>
  \<open>Registry.get\<close> is the same for every world \<open>create\<close> acts on; with a counter beside the
  world that every call of \<open>create\<close> increments, the counter tells how often \<open>get\<close> called it.
\<close>

definition counted :: "(string \<Rightarrow> 'w \<Rightarrow> 'r \<times> 'w) \<Rightarrow> string \<Rightarrow> 'w \<times> nat \<Rightarrow> 'r \<times> 'w \<times> nat" where
  "counted create slug s = (let (w, n) = s; (r, w') = create slug w in (r, w', Suc n))"

section \<open>Notions used in the statements\<close>

text \<open>The lines of a file, none when the file does not exist.\<close>

definition content :: "'d filesystem \<Rightarrow> path \<Rightarrow> 'd line list" where
  "content fs p = (case files fs p of None \<Rightarrow> [] | Some ls \<Rightarrow> ls)"

text \<open>An entry of a loaded mapping whose key is a string between the two bounds, included.\<close>

definition in_range :: "string \<Rightarrow> string \<Rightarrow> string option \<times> 'd \<Rightarrow> bool" where
  "in_range key_start key_end e =
     (case fst e of None \<Rightarrow> False | Some k \<Rightarrow> key_start \<le> k \<and> k \<le> key_end)"

section \<open>A store directory written by an earlier run\<close>

text \<open>
  The examples run on a new \<open>Store\<close> object over a directory that an earlier process has
  filled: the registries are empty, the files exist. Dictionaries and tuples are strings;
  slugs are their own slugs (\<open>slugify\<close> is the identity on the names used).
\<close>

definition usd :: item where
  "usd = \<lparr>code = ''USD'', currency_code = ''USD'', date = ''2023-01-02'',
          fin_id_country = ''US'', fin_id_str = ''US.NYSE''\<rparr>"

definition eur :: item where
  "eur = \<lparr>code = ''EUR'', currency_code = ''EUR'', date = ''2023-12-25'',
          fin_id_country = ''US'', fin_id_str = ''US.NYSE''\<rparr>"

definition earlier_files :: "string filesystem" where
  "earlier_files =
     \<lparr>dirs = {[''store''], [''store'', ''currencies''], [''store'', ''holidays''],
              [''store'', ''schedules'']},
      files = [[''store'', ''currencies'', ''default.dat''] \<mapsto> [(Some ''USD'', ''USD'')],
               [''store'', ''holidays'', ''US.NYSE.dat''] \<mapsto>
                 [(Some ''2023-01-02'', ''New Year''), (Some ''2023-12-25'', ''Christmas''),
                  (Some ''2023-2-1'', ''short date''), (Some ''2024-01-01'', ''next year'')],
               [''store'', ''schedules'', ''US.NYSE.dat''] \<mapsto> [(None, ''old schedule'')]]\<rparr>"

definition new_process :: "string world" where
  "new_process = (Store_init [''store''], earlier_files)"

section \<open>The tables after the import\<close>

definition loaded_tables :: "(string \<Rightarrow> string) \<Rightarrow> 'd tables" where
  "loaded_tables slugify =
     \<lparr>store_known_files =
        [(''currencies'', store_CurrencyFile), (''currency_holidays'', store_CurrencyHolidayFile),
         (''markets'', store_MarketFile), (''holidays'', store_MarketHolidayFile),
         (''schedules'', store_ScheduleFile slugify)],
      catalog_known_files =
        [(''currencies'', catalog_CurrencyFile), (''currency_holidays'', catalog_CurrencyHolidayFile),
         (''markets'', catalog_MarketFile), (''holidays'', catalog_MarketHolidayFile),
         (''schedules'', catalog_ScheduleFile slugify)]\<rparr>"

section \<open>The files a clear deletes\<close>

text \<open>
  The files \<open>Collection.clear\<close> deletes when \<open>Store.clear_collection\<close> runs on a state: the
  locations of the clusters that the registry of the resolved collection holds.
\<close>

definition cleared_locations :: "(string \<Rightarrow> string) \<Rightarrow> string \<Rightarrow> 'd world \<Rightarrow> path set" where
  "cleared_locations slugify name s =
     (let (collection_obj, reg, fs1) = CollectionRegistry_get slugify name (collections (fst s), snd s)
      in location ` set (Registry_iter (cl_resources (clusters collection_obj))))"

section \<open>A CSV folder with an unreadable file\<close>

text \<open>
  \<open>currencies.csv\<close> yields two rows; \<open>currency-holidays.csv\<close> yields one row and then
  raises; every other file is missing.
\<close>

definition broken_csv :: "model \<Rightarrow> path \<Rightarrow> item list \<times> error option" where
  "broken_csv m p =
     (if p = [''data'', ''currencies.csv''] then ([usd, eur], None)
      else if p = [''data'', ''currency-holidays.csv''] then ([usd], Some (SourceError ''unreadable''))
      else ([], Some (SourceError ''no such file'')))"

section \<open>States the operations of the store leave\<close>

text \<open>
  In a state that the operations of a \<open>Store\<close> produce from a new \<open>Store\<close>, the registries
  hold one entry per slug, a collection under the slug \<open>c\<close> has the folder \<open>root / c\<close> and a
  cluster registry on that folder, and a cluster under the slug \<open>k\<close> of it has the location
  \<open>folder / k.dat\<close>, and its file exists: it was touched when the cluster was created and
  only \<open>clear\<close>, which forgets the cluster, deletes it.
\<close>

definition wf_collection :: "path \<Rightarrow> 'd filesystem \<Rightarrow> string \<times> collection \<Rightarrow> bool" where
  "wf_collection r fs e =
     (folder (snd e) = path_join r (fst e)
      \<and> cl_folder (clusters (snd e)) = folder (snd e)
      \<and> distinct (map fst (cl_resources (clusters (snd e))))
      \<and> list_all (\<lambda>k. location (snd k) = path_join (folder (snd e)) (fst k @ ''.dat'')
                       \<and> files fs (location (snd k)) \<noteq> None)
           (cl_resources (clusters (snd e))))"

definition wf_world :: "'d world \<Rightarrow> bool" where
  "wf_world s =
     (distinct (map fst (co_resources (collections (fst s))))
      \<and> list_all (wf_collection (co_root (collections (fst s))) (snd s))
           (co_resources (collections (fst s))))"

text \<open>The file of the cluster that the names of a collection and a cluster resolve to.\<close>

definition cluster_file :: "(string \<Rightarrow> string) \<Rightarrow> 'd world \<Rightarrow> string \<Rightarrow> string \<Rightarrow> path" where
  "cluster_file slugify s coll cluster =
     path_join (path_join (co_root (collections (fst s))) (slugify coll)) (slugify cluster @ ''.dat'')"

text \<open>
  A \<open>slugify\<close> for the examples (\<open>util.py\<close> is not part of the sources at hand): lower
  case, with underscores, dots and spaces turned into hyphens.
\<close>

definition lower :: "char \<Rightarrow> char" where
  "lower c =
     (case map_of (zip ''ABCDEFGHIJKLMNOPQRSTUVWXYZ'' ''abcdefghijklmnopqrstuvwxyz'') c of
        None \<Rightarrow> c | Some l \<Rightarrow> l)"

definition sample_slugify :: "string \<Rightarrow> string" where
  "sample_slugify name =
     map (\<lambda>c. if c = CHR ''_'' \<or> c = CHR ''.'' \<or> c = CHR '' '' then CHR ''-'' else lower c) name"

section \<open>A running store and a CSV folder without schedules\<close>

text \<open>
  The loop of \<open>ingest\<close> over the items its source has yielded.
\<close>

definition store_all ::
  "(string \<Rightarrow> string) \<Rightarrow> (item \<Rightarrow> 'd) \<Rightarrow> 'd declared_file \<Rightarrow> item list \<Rightarrow> 'd world \<Rightarrow> 'd world" where
  "store_all slugify to_dict d loaded s =
     fold (\<lambda>current. Store_store_item slugify to_dict current
              (resolve_collection d current) (resolve_cluster d current) (resolve_key d current)) loaded s"

text \<open>
  A store that has, in this process, stored one schedule in the cluster \<open>US.NYSE\<close>; and a
  CSV folder in which every file but \<open>schedules.csv\<close> exists.
\<close>

definition running_store :: "string world" where
  "running_store =
     Store_store_item sample_slugify code usd ''schedules'' (Some ''US.NYSE'') None
       (Store_init [''store''], \<lparr>dirs = {[''store'']}, files = Map.empty\<rparr>)"

definition csv_without_schedules :: "model \<Rightarrow> path \<Rightarrow> item list \<times> error option" where
  "csv_without_schedules m p =
     (if p = [''data'', ''currencies.csv''] then ([usd, eur], None)
      else if p = [''data'', ''currency-holidays.csv''] then ([usd], None)
      else if p = [''data'', ''markets.csv''] then ([usd], None)
      else if p = [''data'', ''holidays.csv''] then ([eur], None)
      else ([], Some (SourceError ''no such file'')))"

section \<open>A new process on the directory of an earlier run\<close>

text \<open>
  An earlier process stored one schedule in the cluster \<open>US.NYSE\<close> of the collection
  \<open>schedules\<close> and ended; \<open>earlier_run\<close> is the directory it left, whatever \<open>slugify\<close> is.
  \<open>restarted\<close> is a new process on that directory: a new \<open>Store\<close>, with empty registries.
  \<open>one_schedule_csv\<close> is a CSV folder whose files yield one row.
\<close>

definition earlier_run :: "(string \<Rightarrow> string) \<Rightarrow> string filesystem" where
  "earlier_run slugify =
     snd (Store_store_item slugify code usd ''schedules'' (Some ''US.NYSE'') None
            (Store_init [''store''], \<lparr>dirs = {[''store'']}, files = Map.empty\<rparr>))"

definition restarted :: "(string \<Rightarrow> string) \<Rightarrow> string world" where
  "restarted slugify = (Store_init [''store''], earlier_run slugify)"

definition one_schedule_csv :: "model \<Rightarrow> path \<Rightarrow> item list \<times> error option" where
  "one_schedule_csv m p = ([eur], None)"

section \<open>The program: two modules, each with its table\<close>

text \<open>
  \<open>Catalog.ingest_all\<close> and the \<open>ingest\<close> of the \<open>DeclaredFile\<close> of \<open>catalog.py\<close>. They call
  \<open>SourceFile.load_iter\<close>, \<open>to_tuple\<close>, \<open>Store.store_tuple\<close>, \<open>Store.flush\<close> and read
  \<open>Store.remote_folder\<close>, none of which is part of the sources at hand: these are parameters.
  \<open>load_iter\<close> gives the items a source yields and the exception that ends the iteration,
  if one does.
\<close>

definition Catalog_DeclaredFile_ingest ::
  "(source_file \<Rightarrow> item list \<times> error option) \<Rightarrow> (item \<Rightarrow> 'd) \<Rightarrow>
   ('d \<Rightarrow> string \<Rightarrow> string option \<Rightarrow> string option \<Rightarrow> 'd world \<Rightarrow> 'd world) \<Rightarrow>
   'd declared_file \<Rightarrow> source_file \<Rightarrow> 'd world \<Rightarrow> error option \<times> 'd world" where
  "Catalog_DeclaredFile_ingest load_iter to_tuple store_tuple cls self s =
     (let s1 = pre_ingest cls s;
          (loaded, raised) = load_iter self
      in (raised,
          fold (\<lambda>current. store_tuple (to_tuple current) (sf_name self)
                  (resolve_cluster cls current) (resolve_key cls current))
            loaded s1))"

fun Catalog_ingest_loop ::
  "(source_file \<Rightarrow> item list \<times> error option) \<Rightarrow> (item \<Rightarrow> 'd) \<Rightarrow>
   ('d \<Rightarrow> string \<Rightarrow> string option \<Rightarrow> string option \<Rightarrow> 'd world \<Rightarrow> 'd world) \<Rightarrow>
   'd known_files \<Rightarrow> root_arg \<Rightarrow> 'd world \<Rightarrow> error option \<times> 'd world" where
  "Catalog_ingest_loop load_iter to_tuple store_tuple [] csv_folder s = (None, s)"
| "Catalog_ingest_loop load_iter to_tuple store_tuple ((n, declared_class) # rest) csv_folder s =
     (case DeclaredFile_init declared_class csv_folder of
        Inl e \<Rightarrow> (Some e, s)
      | Inr source \<Rightarrow>
          (case Catalog_DeclaredFile_ingest load_iter to_tuple store_tuple declared_class source s of
             (Some e, s') \<Rightarrow> (Some e, s')
           | (None, s') \<Rightarrow> Catalog_ingest_loop load_iter to_tuple store_tuple rest csv_folder s'))"

definition Catalog_ingest_all ::
  "(source_file \<Rightarrow> item list \<times> error option) \<Rightarrow> (item \<Rightarrow> 'd) \<Rightarrow>
   ('d \<Rightarrow> string \<Rightarrow> string option \<Rightarrow> string option \<Rightarrow> 'd world \<Rightarrow> 'd world) \<Rightarrow>
   ('d world \<Rightarrow> 'd world) \<Rightarrow> path \<Rightarrow>
   'd known_files \<Rightarrow> path option \<Rightarrow> 'd world \<Rightarrow> error option \<times> 'd world" where
  "Catalog_ingest_all load_iter to_tuple store_tuple flush remote_folder known csv_folder s =
     (let csv_folder' = (case csv_folder of None \<Rightarrow> path_join remote_folder ''csv'' | Some f \<Rightarrow> f)
      in case Catalog_ingest_loop load_iter to_tuple store_tuple known (RootPath csv_folder') s of
           (Some e, s') \<Rightarrow> (Some e, s')
         | (None, s') \<Rightarrow> (None, flush s'))"

text \<open>
  In a module, \<open>DeclaredFile.known_files\<close> is the table of the base class that the module
  defines, and \<open>cls.known_files\<close> in \<open>__init_subclass__\<close> is the table of the base class
  that \<open>cls\<close> derives from. A class statement changes that table alone.
\<close>

definition known_files_of :: "py_module \<Rightarrow> 'd tables \<Rightarrow> 'd known_files" where
  "known_files_of M t =
     (case M of StoreModule \<Rightarrow> store_known_files t | CatalogModule \<Rightarrow> catalog_known_files t)"

definition class_statement :: "'d declared_file \<Rightarrow> 'd tables \<Rightarrow> error + 'd tables" where
  "class_statement cls t =
     (case DeclaredFile_init_subclass cls (known_files_of (df_module cls) t) of
        Inl e \<Rightarrow> Inl e
      | Inr known \<Rightarrow>
          Inr (case df_module cls of
                 StoreModule \<Rightarrow> t\<lparr>store_known_files := known\<rparr>
               | CatalogModule \<Rightarrow> t\<lparr>catalog_known_files := known\<rparr>))"

fun class_statements :: "'d declared_file list \<Rightarrow> 'd tables \<Rightarrow> error + 'd tables" where
  "class_statements [] t = Inr t"
| "class_statements (cls # rest) t =
     (case class_statement cls t of Inl e \<Rightarrow> Inl e | Inr t' \<Rightarrow> class_statements rest t')"

text \<open>
  The entry points as they run in the program: \<open>Store.ingest_all\<close> is code of \<open>store.py\<close>,
  \<open>Catalog.find_model_collection\<close>, \<open>Catalog.get\<close> and \<open>Catalog.ingest_all\<close> are code of
  \<open>catalog.py\<close>.
\<close>

definition program_Store_ingest_all ::
  "(string \<Rightarrow> string) \<Rightarrow> (item \<Rightarrow> 'd) \<Rightarrow> (model \<Rightarrow> path \<Rightarrow> item list \<times> error option) \<Rightarrow>
   'd tables \<Rightarrow> root_arg \<Rightarrow> 'd world \<Rightarrow> error option \<times> 'd world" where
  "program_Store_ingest_all slugify to_dict from_csv t data_folder s =
     Store_ingest_all slugify to_dict from_csv (known_files_of StoreModule t) data_folder s"

definition program_find_model_collection ::
  "(string \<Rightarrow> string) \<Rightarrow> 'd tables \<Rightarrow> model \<Rightarrow> 'd world \<Rightarrow> (string \<times> collection \<times> 'd world) option" where
  "program_find_model_collection slugify t m s =
     find_model_collection slugify (known_files_of CatalogModule t) m s"

definition program_Catalog_get ::
  "(string \<Rightarrow> string) \<Rightarrow> 'd tables \<Rightarrow> ('d \<Rightarrow> 'b) \<Rightarrow> model \<Rightarrow> string \<Rightarrow> string option \<Rightarrow>
   'd world \<Rightarrow> (error + 'b option) \<times> 'd world" where
  "program_Catalog_get slugify t from_tuple m key cluster s =
     Catalog_get slugify (known_files_of CatalogModule t) from_tuple m key cluster s"

definition program_Catalog_ingest_all ::
  "(source_file \<Rightarrow> item list \<times> error option) \<Rightarrow> (item \<Rightarrow> 'd) \<Rightarrow>
   ('d \<Rightarrow> string \<Rightarrow> string option \<Rightarrow> string option \<Rightarrow> 'd world \<Rightarrow> 'd world) \<Rightarrow>
   ('d world \<Rightarrow> 'd world) \<Rightarrow> path \<Rightarrow>
   'd tables \<Rightarrow> path option \<Rightarrow> 'd world \<Rightarrow> error option \<times> 'd world" where
  "program_Catalog_ingest_all load_iter to_tuple store_tuple flush remote_folder t csv_folder s =
     Catalog_ingest_all load_iter to_tuple store_tuple flush remote_folder
       (known_files_of CatalogModule t) csv_folder s"

text \<open>
  A descriptor class for a further model, as a module of the application defines it by
  deriving from the \<open>DeclaredFile\<close> of the module \<open>M\<close>.
\<close>

definition IndexFile :: "py_module \<Rightarrow> 'd declared_file" where
  "IndexFile M =
     \<lparr>df_module = M, df_class = ''IndexFile'',
      df_name = Some ''indices'', df_model = Some (OtherModel ''Index''),
      pre_ingest = (\<lambda>s. s),
      resolve_collection = (\<lambda>i. ''indices''),
      resolve_cluster = (\<lambda>i. None),
      resolve_key = (\<lambda>i. Some (code i))\<rparr>"

text \<open>The tables after the import and the class statement of \<open>IndexFile M\<close>.\<close>

definition with_IndexFile :: "py_module \<Rightarrow> string tables" where
  "with_IndexFile M =
     (case M of
        StoreModule \<Rightarrow>
          (loaded_tables sample_slugify)\<lparr>store_known_files :=
             store_known_files (loaded_tables sample_slugify) @ [(''indices'', IndexFile StoreModule)]\<rparr>
      | CatalogModule \<Rightarrow>
          (loaded_tables sample_slugify)\<lparr>catalog_known_files :=
             catalog_known_files (loaded_tables sample_slugify) @ [(''indices'', IndexFile CatalogModule)]\<rparr>)"

section \<open>SourceFile: names and file names\<close>

lemma replace_same_up_to_separators:
  "same_up_to_separators a b \<Longrightarrow> replace CHR ''_'' CHR ''-'' a = replace CHR ''_'' CHR ''-'' b"
  unfolding same_up_to_separators_def replace_def
  by (induction a b rule: list_all2_induct) auto

lemma SourceFile_init_name:
  "SourceFile_init rt (PyVal n) model = Inr sf \<Longrightarrow> sf_name sf = n"
  by (auto simp: SourceFile_init_def Let_def split: root_arg.splits pyarg.splits)

lemma SourceFile_init_root:
  "SourceFile_init rt (PyVal n1) m1 = Inr sf1 \<Longrightarrow>
   SourceFile_init rt (PyVal n2) m2 = Inr sf2 \<Longrightarrow> sf_root sf1 = sf_root sf2"
  by (auto simp: SourceFile_init_def Let_def split: root_arg.splits pyarg.splits)

text \<open>
  C10. A SourceFile constructed with the name string \<open>n\<close> has as \<open>name\<close> the string \<open>n\<close>
  with every hyphen replaced by an underscore, and as \<open>filename\<close> the string \<open>n\<close> with
  every underscore replaced by a hyphen, followed by \<open>.csv\<close>; two SourceFiles over the
  same root whose names differ only in hyphens versus underscores have the same CSV path.
\<close>

theorem SourceFile_name_filename:
  assumes "SourceFile_init rt (PyVal n) m = Inr sf"
  shows "SourceFile_name sf = map (\<lambda>c. if c = CHR ''-'' then CHR ''_'' else c) n
       \<and> SourceFile_filename sf = map (\<lambda>c. if c = CHR ''_'' then CHR ''-'' else c) n @ ''.csv''
       \<and> (SourceFile_init rt (PyVal n') m' = Inr sf' \<and> same_up_to_separators n n' \<longrightarrow>
            SourceFile_path sf = SourceFile_path sf')"
proof -
  have n: "sf_name sf = n" using assms by (rule SourceFile_init_name)
  have 1: "SourceFile_name sf = map (\<lambda>c. if c = CHR ''-'' then CHR ''_'' else c) n"
    by (simp add: SourceFile_name_def replace_def n)
  have 2: "SourceFile_filename sf = map (\<lambda>c. if c = CHR ''_'' then CHR ''-'' else c) n @ ''.csv''"
    by (simp add: SourceFile_filename_def replace_def n)
  have 3: "SourceFile_path sf = SourceFile_path sf'"
    if a: "SourceFile_init rt (PyVal n') m' = Inr sf'" and s: "same_up_to_separators n n'"
  proof -
    have n': "sf_name sf' = n'" using a by (rule SourceFile_init_name)
    have r: "sf_root sf = sf_root sf'" using assms a by (rule SourceFile_init_root)
    show ?thesis
      using replace_same_up_to_separators [OF s]
      by (simp add: SourceFile_path_def SourceFile_filename_def n n' r)
  qed
  from 1 2 3 show ?thesis by blast
qed

theorem SourceFile_name_filename_witness:
  "SourceFile_init (RootStr ''data/csv'') (PyVal ''currency_holidays'') (PyVal CurrencyHoliday)
     = Inr \<lparr>sf_name = ''currency_holidays'', sf_root = [''data'', ''csv''], sf_model = CurrencyHoliday\<rparr>
   \<and> SourceFile_init (RootStr ''data/csv'') (PyVal ''currency-holidays'') (PyVal CurrencyHoliday)
     = Inr \<lparr>sf_name = ''currency-holidays'', sf_root = [''data'', ''csv''], sf_model = CurrencyHoliday\<rparr>
   \<and> same_up_to_separators ''currency_holidays'' ''currency-holidays''
   \<and> SourceFile_name \<lparr>sf_name = ''currency_holidays'', sf_root = [''data'', ''csv''], sf_model = CurrencyHoliday\<rparr>
       = ''currency_holidays''
   \<and> SourceFile_filename \<lparr>sf_name = ''currency_holidays'', sf_root = [''data'', ''csv''], sf_model = CurrencyHoliday\<rparr>
       = ''currency-holidays.csv''
   \<and> SourceFile_path \<lparr>sf_name = ''currency_holidays'', sf_root = [''data'', ''csv''], sf_model = CurrencyHoliday\<rparr>
       = [''data'', ''csv'', ''currency-holidays.csv'']
   \<and> SourceFile_path \<lparr>sf_name = ''currency-holidays'', sf_root = [''data'', ''csv''], sf_model = CurrencyHoliday\<rparr>
       = [''data'', ''csv'', ''currency-holidays.csv'']"
proof -
  have i1: "SourceFile_init (RootStr ''data/csv'') (PyVal ''currency_holidays'') (PyVal CurrencyHoliday)
     = Inr \<lparr>sf_name = ''currency_holidays'', sf_root = [''data'', ''csv''], sf_model = CurrencyHoliday\<rparr>"
    by (simp add: SourceFile_init_def Path_def)
  have i2: "SourceFile_init (RootStr ''data/csv'') (PyVal ''currency-holidays'') (PyVal CurrencyHoliday)
     = Inr \<lparr>sf_name = ''currency-holidays'', sf_root = [''data'', ''csv''], sf_model = CurrencyHoliday\<rparr>"
    by (simp add: SourceFile_init_def Path_def)
  have s: "same_up_to_separators ''currency_holidays'' ''currency-holidays''"
    by (simp add: same_up_to_separators_def)
  have p: "SourceFile_path \<lparr>sf_name = ''currency-holidays'', sf_root = [''data'', ''csv''], sf_model = CurrencyHoliday\<rparr>
       = [''data'', ''csv'', ''currency-holidays.csv'']"
    by (simp add: SourceFile_path_def SourceFile_filename_def replace_def path_join_def)
  show ?thesis
    using i1 i2 s p
      SourceFile_name_filename [OF i1, of "''currency-holidays''" "PyVal CurrencyHoliday"
        "\<lparr>sf_name = ''currency-holidays'', sf_root = [''data'', ''csv''], sf_model = CurrencyHoliday\<rparr>"]
    by simp
qed

section \<open>Cluster: replaying the log\<close>

lemma fold_update_distinct:
  "distinct (map fst m) \<Longrightarrow> distinct (map fst (fold (\<lambda>(key, tuple) m. AList.update key tuple m) ls m))"
  by (induction ls arbitrary: m) (auto simp: distinct_update)

lemma fold_update_map_of:
  "map_of (fold (\<lambda>(key, tuple) m. AList.update key tuple m) ls m) = map_of m ++ map_of (rev ls)"
  by (induction ls arbitrary: m) (auto simp: update_conv' map_add_def fun_eq_iff split: option.splits)

lemma replay_distinct: "distinct (map fst (replay ls))"
  by (simp add: replay_def fold_update_distinct)

lemma replay_map_of: "map_of (replay ls) = map_of (rev ls)"
  by (simp add: replay_def fold_update_map_of)

lemma distinct_filter_key:
  "distinct (map fst m) \<Longrightarrow> map_of m k = Some v \<Longrightarrow> filter (\<lambda>e. fst e = k) m = [(k, v)]"
proof (induction m)
  case Nil then show ?case by simp
next
  case (Cons a m)
  show ?case
  proof (cases "fst a = k")
    case True
    with Cons.prems have "a = (k, v)" by (cases a) auto
    moreover have "filter (\<lambda>e. fst e = k) m = []"
      using Cons.prems True by (auto simp: filter_empty_conv image_iff)
    ultimately show ?thesis by simp
  next
    case False
    with Cons show ?thesis by (cases a) auto
  qed
qed

lemma files_append_line:
  "files (append_line p l fs) p = Some ((case files fs p of None \<Rightarrow> [] | Some ls \<Rightarrow> ls) @ [l])"
  by (simp add: append_line_def)

text \<open>
  C1. \<open>load_all\<close> replays every line of the cluster's file from the start into a mapping
  with one entry per key, in which the last line with a key gives its value. After two
  records are appended under the same key \<open>k\<close>, whatever the file held before, \<open>load_all\<close>
  returns a mapping with exactly one entry for \<open>k\<close>, and it carries the second record.
\<close>

theorem load_all_last_write_wins:
  "\<exists>m. Cluster_load_all c (Cluster_append c k v2 (Cluster_append c k v1 fs)) = Inr m
       \<and> m = replay ((case files fs (location c) of None \<Rightarrow> [] | Some ls \<Rightarrow> ls) @ [(k, v1), (k, v2)])
       \<and> distinct (map fst m)
       \<and> filter (\<lambda>e. fst e = k) m = [(k, v2)]
       \<and> (\<forall>k'. map_of m k' =
            map_of (rev ((case files fs (location c) of None \<Rightarrow> [] | Some ls \<Rightarrow> ls) @ [(k, v1), (k, v2)])) k')"
proof -
  let ?old = "case files fs (location c) of None \<Rightarrow> [] | Some ls \<Rightarrow> ls"
  let ?m = "replay (?old @ [(k, v1), (k, v2)])"
  have f: "files (Cluster_append c k v2 (Cluster_append c k v1 fs)) (location c)
           = Some (?old @ [(k, v1), (k, v2)])"
    by (simp add: Cluster_append_def files_append_line)
  have l: "Cluster_load_all c (Cluster_append c k v2 (Cluster_append c k v1 fs)) = Inr ?m"
    by (simp add: Cluster_load_all_def f)
  have d: "distinct (map fst ?m)" by (rule replay_distinct)
  have mo: "map_of ?m k = Some v2" by (simp add: replay_map_of)
  have one: "filter (\<lambda>e. fst e = k) ?m = [(k, v2)]" by (rule distinct_filter_key [OF d mo])
  show ?thesis using l d one by (simp add: replay_map_of)
qed

section \<open>Registry: memoization\<close>

lemma update_fresh: "map_of al k = None \<Longrightarrow> AList.update k v al = al @ [(k, v)]"
  by (induction al) (auto split: if_splits)

lemma Registry_get_hit:
  "map_of res (slugify n) = Some r \<Longrightarrow> Registry_get slugify create n (res, w) = (r, res, w)"
  by (simp add: Registry_get_def)

lemma Registry_get_miss:
  "map_of res (slugify n) = None \<Longrightarrow> create (slugify n) w = (r, w') \<Longrightarrow>
   Registry_get slugify create n (res, w) = (r, res @ [(slugify n, r)], w')"
  by (simp add: Registry_get_def update_fresh)

lemma Registry_get_registered:
  "Registry_get slugify create n (res, w) = (r, res', w') \<Longrightarrow> map_of res' (slugify n) = Some r"
  by (auto simp: Registry_get_def Let_def update_conv' split: option.splits prod.splits)

lemma Registry_get_distinct:
  "Registry_get slugify create n (res, w) = (r, res', w') \<Longrightarrow> distinct (map fst res) \<Longrightarrow>
   distinct (map fst res')"
  by (auto simp: Registry_get_def Let_def distinct_update split: option.splits prod.splits)

text \<open>
  C5. For two names with the same slug, \<open>get\<close> returns the memoized resource when the
  registry holds one under the slug, without calling \<open>create\<close>; otherwise it calls \<open>create\<close>
  exactly once, stores the result under the slug and returns it. The second \<open>get\<close> returns
  the same resource, calls \<open>create\<close> no more and leaves the registry as it is; a registry
  with one entry per slug keeps one entry per slug.
\<close>

theorem Registry_get_memoizes:
  assumes eq: "slugify n1 = slugify n2"
    and g1: "Registry_get slugify (counted create) n1 (res, (w, k)) = (r1, res1, (w1, k1))"
    and g2: "Registry_get slugify (counted create) n2 (res1, (w1, k1)) = (r2, res2, (w2, k2))"
  shows "(case map_of res (slugify n1) of
            Some r \<Rightarrow> r1 = r \<and> res1 = res \<and> w1 = w \<and> k1 = k
          | None \<Rightarrow> (r1, w1) = create (slugify n1) w \<and> k1 = Suc k \<and> res1 = res @ [(slugify n1, r1)])
       \<and> map_of res1 (slugify n1) = Some r1
       \<and> r2 = r1 \<and> res2 = res1 \<and> w2 = w1 \<and> k2 = k1
       \<and> (distinct (map fst res) \<longrightarrow> distinct (map fst res1))"
proof -
  have first: "case map_of res (slugify n1) of
            Some r \<Rightarrow> r1 = r \<and> res1 = res \<and> w1 = w \<and> k1 = k
          | None \<Rightarrow> (r1, w1) = create (slugify n1) w \<and> k1 = Suc k \<and> res1 = res @ [(slugify n1, r1)]"
  proof (cases "map_of res (slugify n1)")
    case (Some r)
    then show ?thesis using g1 by (simp add: Registry_get_hit)
  next
    case None
    obtain r w' where c: "create (slugify n1) w = (r, w')" by (cases "create (slugify n1) w")
    then have cc: "counted create (slugify n1) (w, k) = (r, w', Suc k)" by (simp add: counted_def)
    have X: "Registry_get slugify (counted create) n1 (res, (w, k)) = (r, res @ [(slugify n1, r)], (w', Suc k))"
      using None cc by (rule Registry_get_miss)
    have "(r, res @ [(slugify n1, r)], (w', Suc k)) = (r1, res1, (w1, k1))"
      using g1 unfolding X .
    with c None show ?thesis by auto
  qed
  have reg: "map_of res1 (slugify n1) = Some r1" using g1 by (rule Registry_get_registered)
  then have "map_of res1 (slugify n2) = Some r1" using eq by simp
  then have Y: "Registry_get slugify (counted create) n2 (res1, (w1, k1)) = (r1, res1, (w1, k1))"
    by (rule Registry_get_hit)
  have "(r1, res1, (w1, k1)) = (r2, res2, (w2, k2))" using g2 unfolding Y .
  then have second: "r2 = r1 \<and> res2 = res1 \<and> w2 = w1 \<and> k2 = k1" by simp
  have d: "distinct (map fst res) \<longrightarrow> distinct (map fst res1)"
    using Registry_get_distinct [OF g1] by blast
  from first reg second d show ?thesis by blast
qed

theorem Registry_get_memoizes_witness:
  "replace CHR '' '' CHR ''-'' ''us nyse'' = replace CHR '' '' CHR ''-'' ''us-nyse''
   \<and> Registry_get (replace CHR '' '' CHR ''-'') (counted (\<lambda>slug n. (n, Suc n))) ''us nyse'' ([], (0, 0))
       = (0, [(''us-nyse'', 0)], (1, 1))
   \<and> Registry_get (replace CHR '' '' CHR ''-'') (counted (\<lambda>slug n. (n, Suc n))) ''us-nyse''
       ([(''us-nyse'', 0)], (1, 1)) = (0, [(''us-nyse'', 0)], (1, 1))
   \<and> distinct (map fst [(''us-nyse'', 0::nat)])"
proof -
  have e: "replace CHR '' '' CHR ''-'' ''us nyse'' = replace CHR '' '' CHR ''-'' ''us-nyse''"
    by (simp add: replace_def)
  have g1: "Registry_get (replace CHR '' '' CHR ''-'') (counted (\<lambda>slug n. (n, Suc n))) ''us nyse'' ([], (0, 0))
       = (0, [(''us-nyse'', 0)], (1, 1))"
    by (simp add: Registry_get_def counted_def replace_def)
  have g2: "Registry_get (replace CHR '' '' CHR ''-'') (counted (\<lambda>slug n. (n, Suc n))) ''us-nyse''
       ([(''us-nyse'', 0)], (1, 1)) = (0, [(''us-nyse'', 0)], (1, 1))"
    by (simp add: Registry_get_def counted_def replace_def)
  show ?thesis using e g1 g2 Registry_get_memoizes [OF e g1 g2] by simp
qed

section \<open>Catalog: the loops and the loaded mapping\<close>

lemmas hierarchy_defs =
  Let_def Store_store_item_def Store_clear_collection_def Collection_clear_def Registry_iter_def
  Store_init_def CollectionRegistry_get_def CollectionRegistry_init_def
  Registry_get_def CollectionRegistry_create_def Collection_init_def ClusterRegistry_init_def
  Collection_touch_def mkdir_def path_join_def ClusterRegistry_get_def ClusterRegistry_create_def
  Cluster_touch_def Cluster_delete_def touch_file_def unlink_def put_collection_def
  Cluster_append_def append_line_def

lemmas catalog_defs =
  Catalog_get_def Catalog_filter_def or_default_def Cluster_load_all_def replay_def
  new_process_def earlier_files_def usd_def eur_def

lemma find_map_of:
  "find (\<lambda>e. fst e = k) m = (case map_of m k of None \<Rightarrow> None | Some v \<Rightarrow> Some (k, v))"
  by (induction m) auto

lemma get_loop_find:
  "get_loop from_tuple key cluster_data =
     map_option (from_tuple \<circ> snd) (find (\<lambda>e. fst e = Some key) cluster_data)"
  by (induction cluster_data) auto

lemma get_loop_replay:
  "get_loop from_tuple key (replay ls) = map_option from_tuple (map_of (rev ls) (Some key))"
  by (simp add: get_loop_find find_map_of replay_map_of split: option.splits)

lemma replay_keys: "fst ` set (replay ls) = fst ` set ls"
proof -
  have "dom (map_of (replay ls)) = dom (map_of (rev ls))" by (simp add: replay_map_of)
  then show ?thesis by (simp add: dom_map_of_conv_image_fst)
qed

lemma Catalog_get_unfold:
  assumes "find_model_collection slugify known m s = Some (n, cobj, (st, fs))"
    and "ClusterRegistry_get slugify (or_default cluster) (clusters cobj, fs) = (cl, creg, fs')"
    and "files fs' (location cl) = Some ls"
  shows "Catalog_get slugify known from_tuple m key cluster s =
           (Inr (get_loop from_tuple key (replay ls)),
            (put_collection (slugify n) (cobj\<lparr>clusters := creg\<rparr>) st, fs'))"
  using assms by (simp add: Catalog_get_def Cluster_load_all_def)

lemma Catalog_filter_unfold:
  assumes "find_model_collection slugify known m s = Some (n, cobj, (st, fs))"
    and "ClusterRegistry_get slugify (or_default cluster) (clusters cobj, fs) = (cl, creg, fs')"
    and "files fs' (location cl) = Some ls"
  shows "Catalog_filter slugify known from_tuple m a b cluster s =
           (Inr (filter_loop from_tuple a b (replay ls)),
            (put_collection (slugify n) (cobj\<lparr>clusters := creg\<rparr>) st, fs'))"
  using assms by (simp add: Catalog_filter_def Cluster_load_all_def)

lemma Catalog_get_Inr:
  assumes "Catalog_get slugify known from_tuple m key cluster s = (Inr r, s')"
  shows "\<exists>n cobj st fs cl creg ls.
           find_model_collection slugify known m s = Some (n, cobj, (st, fs))
         \<and> ClusterRegistry_get slugify (or_default cluster) (clusters cobj, fs) = (cl, creg, snd s')
         \<and> files (snd s') (location cl) = Some ls
         \<and> r = get_loop from_tuple key (replay ls)"
  using assms
  by (auto simp: Catalog_get_def Let_def Cluster_load_all_def split: option.splits prod.splits sum.splits)

lemma holidays_found:
  "find_model_collection (\<lambda>s. s) [(''currencies'', catalog_CurrencyFile), (''holidays'', catalog_MarketHolidayFile)]
     MarketHoliday new_process =
   Some (''holidays'', Collection_init [''store'', ''holidays''],
         (\<lparr>root = [''store''],
           collections = \<lparr>co_resources = [(''holidays'', Collection_init [''store'', ''holidays''])],
                          co_root = [''store'']\<rparr>\<rparr>,
          mkdir [''store'', ''holidays''] earlier_files))"
  by (simp add: catalog_CurrencyFile_def catalog_MarketHolidayFile_def hierarchy_defs new_process_def)

lemma holidays_cluster:
  "ClusterRegistry_get (\<lambda>s. s) (or_default (Some ''US.NYSE''))
     (clusters (Collection_init [''store'', ''holidays'']), mkdir [''store'', ''holidays''] earlier_files) =
   (\<lparr>location = [''store'', ''holidays'', ''US.NYSE.dat'']\<rparr>,
    \<lparr>cl_resources = [(''US.NYSE'', \<lparr>location = [''store'', ''holidays'', ''US.NYSE.dat'']\<rparr>)],
     cl_folder = [''store'', ''holidays'']\<rparr>,
    mkdir [''store'', ''holidays''] earlier_files)"
  by (simp add: hierarchy_defs or_default_def earlier_files_def)

lemma holidays_lines:
  "files (mkdir [''store'', ''holidays''] earlier_files)
     (location \<lparr>location = [''store'', ''holidays'', ''US.NYSE.dat'']\<rparr>) =
   Some [(Some ''2023-01-02'', ''New Year''), (Some ''2023-12-25'', ''Christmas''),
         (Some ''2023-2-1'', ''short date''), (Some ''2024-01-01'', ''next year'')]"
  by (simp add: mkdir_def earlier_files_def)

lemma holidays_replay:
  "replay [(Some ''2023-01-02'', ''New Year''), (Some ''2023-12-25'', ''Christmas''),
           (Some ''2023-2-1'', ''short date''), (Some ''2024-01-01'', ''next year'')] =
   [(Some ''2023-01-02'', ''New Year''), (Some ''2023-12-25'', ''Christmas''),
    (Some ''2023-2-1'', ''short date''), (Some ''2024-01-01'', ''next year'')]"
  by (simp add: replay_def)

section \<open>Catalog: range filter\<close>

lemma filter_loop_no_null:
  "None \<notin> fst ` set cluster_data \<Longrightarrow>
   filter_loop from_tuple key_start key_end cluster_data =
     (map (from_tuple \<circ> snd) (filter (in_range key_start key_end) cluster_data), None)"
  by (induction cluster_data) (auto simp: in_range_def split: option.splits)

text \<open>
  C3 (as amended). When the model has a descriptor and the file of the resolved cluster
  exists and holds no line with a null key, \<open>Catalog.filter\<close> yields, in the order of the
  loaded mapping, the decodings of exactly the entries whose key \<open>k\<close> satisfies
  \<open>key_start \<le> k \<le> key_end\<close> in the lexicographic order of strings, both bounds
  included, and ends without an exception.
\<close>

theorem Catalog_filter_in_range:
  assumes f: "find_model_collection slugify known m s = Some (n, cobj, (st, fs))"
    and g: "ClusterRegistry_get slugify (or_default cluster) (clusters cobj, fs) = (cl, creg, fs')"
    and l: "files fs' (location cl) = Some ls"
    and k: "None \<notin> fst ` set ls"
  shows "fst (Catalog_filter slugify known from_tuple m key_start key_end cluster s)
           = Inr (map (from_tuple \<circ> snd) (filter (in_range key_start key_end) (replay ls)), None)"
proof -
  have "None \<notin> fst ` set (replay ls)" using k by (simp add: replay_keys)
  then show ?thesis
    by (simp add: Catalog_filter_unfold [OF f g l] filter_loop_no_null)
qed

lemma holidays_no_null:
  "None \<notin> fst ` set [(Some ''2023-01-02'', ''New Year''), (Some ''2023-12-25'', ''Christmas''),
           (Some ''2023-2-1'', ''short date''), (Some ''2024-01-01'', ''next year'')]"
  by simp

theorem Catalog_filter_in_range_witness:
  "fst (Catalog_filter (\<lambda>s. s) [(''currencies'', catalog_CurrencyFile), (''holidays'', catalog_MarketHolidayFile)]
         (\<lambda>d. d) MarketHoliday ''2023-01-01'' ''2023-12-31'' (Some ''US.NYSE'') new_process)
     = Inr ([''New Year'', ''Christmas''], None)"
  using Catalog_filter_in_range [OF holidays_found holidays_cluster holidays_lines holidays_no_null,
      of "\<lambda>d. d" "''2023-01-01''" "''2023-12-31''"]
  unfolding holidays_replay by (simp add: in_range_def)

text \<open>
  C3 as stated fails on a cluster that holds a null key: two \<open>store_item\<close> calls on a new
  store put a record without key and then a record with key \<open>B\<close> into one cluster; the
  key \<open>B\<close> lies between \<open>A\<close> and \<open>M\<close>, and \<open>filter\<close> yields nothing, because the
  comparison of the null key raises \<open>TypeError\<close> before the loop reaches the record.
\<close>

theorem Catalog_filter_null_key_counterexample:
  "fst (Catalog_filter (\<lambda>s. s) [(''currencies'', catalog_CurrencyFile)] (\<lambda>d. d) Currency ''A'' ''M'' (Some ''x'')
         (Store_store_item (\<lambda>s. s) code usd ''currencies'' (Some ''x'') (Some ''B'')
           (Store_store_item (\<lambda>s. s) code eur ''currencies'' (Some ''x'') None
              (Store_init [''store''], \<lparr>dirs = {[''store'']}, files = Map.empty\<rparr>))))
     = Inr ([], Some (TypeError ''>= not supported between NoneType and str''))
   \<and> files (snd (Store_store_item (\<lambda>s. s) code usd ''currencies'' (Some ''x'') (Some ''B'')
           (Store_store_item (\<lambda>s. s) code eur ''currencies'' (Some ''x'') None
              (Store_init [''store''], \<lparr>dirs = {[''store'']}, files = Map.empty\<rparr>))))
         [''store'', ''currencies'', ''x.dat'']
     = Some [(None, ''EUR''), (Some ''B'', ''USD'')]
   \<and> ''A'' \<le> ''B'' \<and> ''B'' \<le> ''M''"
  by (simp add: catalog_defs hierarchy_defs catalog_CurrencyFile_def)

section \<open>The fallback clusters\<close>

lemma CollectionRegistry_get_files:
  "CollectionRegistry_get slugify n (reg, fs) = (c, reg', fs') \<Longrightarrow> files fs' = files fs"
  by (auto simp: CollectionRegistry_get_def Registry_get_def CollectionRegistry_create_def
      Collection_touch_def mkdir_def Let_def split: option.splits prod.splits)

lemma content_touch_file: "content (touch_file p fs) q = content fs q"
  by (simp add: content_def touch_file_def split: option.splits)

lemma ClusterRegistry_get_content:
  "ClusterRegistry_get slugify n (reg, fs) = (c, reg', fs') \<Longrightarrow> content fs' p = content fs p"
  by (auto simp: ClusterRegistry_get_def Registry_get_def ClusterRegistry_create_def
      Cluster_touch_def content_touch_file Let_def split: option.splits prod.splits)

lemma ClusterRegistry_get_registered:
  "ClusterRegistry_get slugify n (reg, fs) = (c, reg', fs') \<Longrightarrow>
   map_of (cl_resources reg') (slugify n) = Some c"
  by (auto simp: ClusterRegistry_get_def Let_def split: prod.splits dest: Registry_get_registered)

lemma CollectionRegistry_get_registered:
  "CollectionRegistry_get slugify n (reg, fs) = (c, reg', fs') \<Longrightarrow>
   map_of (co_resources reg') (slugify n) = Some c"
  by (auto simp: CollectionRegistry_get_def Let_def split: prod.splits dest: Registry_get_registered)

lemma CollectionRegistry_get_fresh:
  "CollectionRegistry_get slugify n (reg, fs) = (c, reg', fs') \<Longrightarrow>
   map_of (co_resources reg) (slugify n) = None \<Longrightarrow>
   c = Collection_init (path_join (co_root reg) (slugify n))"
  by (auto simp: CollectionRegistry_get_def Registry_get_def CollectionRegistry_create_def
      Let_def split: prod.splits)

lemma ClusterRegistry_get_fresh:
  "ClusterRegistry_get slugify n (reg, fs) = (c, reg', fs') \<Longrightarrow>
   map_of (cl_resources reg) (slugify n) = None \<Longrightarrow>
   location c = path_join (cl_folder reg) (slugify n @ ''.dat'')"
  by (auto simp: ClusterRegistry_get_def Registry_get_def ClusterRegistry_create_def
      Let_def split: prod.splits)

lemma content_append_line:
  "files (append_line p l fs) p = Some (content fs p @ [l])"
  by (simp add: append_line_def content_def)

lemma Store_store_item_unfold:
  assumes c: "CollectionRegistry_get slugify coll (collections st, fs) = (cobj, reg, fs1)"
    and k: "ClusterRegistry_get slugify (case cluster of None \<Rightarrow> ''unique'' | Some c \<Rightarrow> c) (clusters cobj, fs1) = (cl, creg, fs2)"
  shows "Store_store_item slugify to_dict item coll cluster key (st, fs) =
           (put_collection (slugify coll) (cobj\<lparr>clusters := creg\<rparr>) (st\<lparr>collections := reg\<rparr>),
            Cluster_append cl key (to_dict item) fs2)"
  using c k by (simp add: Store_store_item_def)

lemma Store_store_item_None:
  "Store_store_item slugify to_dict item coll None key s =
   Store_store_item slugify to_dict item coll (Some ''unique'') key s"
  by (simp add: Store_store_item_def)

lemma Catalog_get_None:
  "Catalog_get slugify known from_tuple m key None s =
   Catalog_get slugify known from_tuple m key (Some ''default'') s"
  by (simp add: Catalog_get_def or_default_def cong: option.case_cong)

lemma Catalog_filter_None:
  "Catalog_filter slugify known from_tuple m a b None s =
   Catalog_filter slugify known from_tuple m a b (Some ''default'') s"
  by (simp add: Catalog_filter_def or_default_def cong: option.case_cong)

lemma Catalog_filter_Inr:
  assumes "Catalog_filter slugify known from_tuple m a b cluster s = (Inr r, s')"
  shows "\<exists>n cobj st fs cl creg ls.
           find_model_collection slugify known m s = Some (n, cobj, (st, fs))
         \<and> ClusterRegistry_get slugify (or_default cluster) (clusters cobj, fs) = (cl, creg, snd s')
         \<and> files (snd s') (location cl) = Some ls
         \<and> r = filter_loop from_tuple a b (replay ls)"
  using assms
  by (auto simp: Catalog_filter_def Let_def Cluster_load_all_def split: option.splits prod.splits sum.splits)

text \<open>
  C2. With \<open>cluster=None\<close>, \<open>Store.store_item\<close> resolves the collection by its name and,
  in it, the cluster that \<open>clusters.get("unique")\<close> returns, which the collection's registry
  holds under the slug of \<open>unique\<close> (in a collection created by this call its file is
  \<open>unique.dat\<close> in the collection's folder), and appends the line \<open>(key, item.to_dict())\<close>
  to what the file of that cluster holds. With \<open>cluster=None\<close>, a \<open>Catalog.get\<close> or a
  \<open>Catalog.filter\<close> that returns has read the file of the cluster that
  \<open>clusters.get("default")\<close> of the model's collection returns, held under the slug of
  \<open>default\<close>.
\<close>

theorem fallback_slugs:
  fixes s :: "'d world"
  shows "(\<exists>cobj reg fs1 cl creg fs2 st'.
            CollectionRegistry_get slugify coll (collections (fst s), snd s) = (cobj, reg, fs1)
          \<and> ClusterRegistry_get slugify ''unique'' (clusters cobj, fs1) = (cl, creg, fs2)
          \<and> Store_store_item slugify to_dict item coll None key s
               = (st', Cluster_append cl key (to_dict item) fs2)
          \<and> map_of (co_resources (collections st')) (slugify coll) = Some (cobj\<lparr>clusters := creg\<rparr>)
          \<and> map_of (cl_resources creg) (slugify ''unique'') = Some cl
          \<and> files (Cluster_append cl key (to_dict item) fs2) (location cl)
               = Some (content (snd s) (location cl) @ [(key, to_dict item)])
          \<and> (map_of (co_resources (collections (fst s))) (slugify coll) = None \<longrightarrow>
               location cl = path_join (path_join (co_root (collections (fst s))) (slugify coll))
                               (slugify ''unique'' @ ''.dat'')))
       \<and> (\<forall>r s'. Catalog_get slugify known from_tuple m k None s = (Inr r, s') \<longrightarrow>
            (\<exists>n cobj st fs cl creg ls.
                find_model_collection slugify known m s = Some (n, cobj, (st, fs))
              \<and> ClusterRegistry_get slugify ''default'' (clusters cobj, fs) = (cl, creg, snd s')
              \<and> map_of (cl_resources creg) (slugify ''default'') = Some cl
              \<and> files (snd s') (location cl) = Some ls
              \<and> r = get_loop from_tuple k (replay ls)))
       \<and> (\<forall>r s'. Catalog_filter slugify known from_tuple m a b None s = (Inr r, s') \<longrightarrow>
            (\<exists>n cobj st fs cl creg ls.
                find_model_collection slugify known m s = Some (n, cobj, (st, fs))
              \<and> ClusterRegistry_get slugify ''default'' (clusters cobj, fs) = (cl, creg, snd s')
              \<and> map_of (cl_resources creg) (slugify ''default'') = Some cl
              \<and> files (snd s') (location cl) = Some ls
              \<and> r = filter_loop from_tuple a b (replay ls)))"
proof (intro conjI)
  obtain st fs where s: "s = (st, fs)" by (cases s)
  obtain cobj reg fs1 where c: "CollectionRegistry_get slugify coll (collections st, fs) = (cobj, reg, fs1)"
    by (cases "CollectionRegistry_get slugify coll (collections st, fs)")
  obtain cl creg fs2 where k: "ClusterRegistry_get slugify ''unique'' (clusters cobj, fs1) = (cl, creg, fs2)"
    by (cases "ClusterRegistry_get slugify ''unique'' (clusters cobj, fs1)")
  let ?st' = "put_collection (slugify coll) (cobj\<lparr>clusters := creg\<rparr>) (st\<lparr>collections := reg\<rparr>)"
  have run: "Store_store_item slugify to_dict item coll None key s
               = (?st', Cluster_append cl key (to_dict item) fs2)"
    using c k by (simp add: s Store_store_item_unfold)
  have reg1: "map_of (co_resources (collections ?st')) (slugify coll) = Some (cobj\<lparr>clusters := creg\<rparr>)"
    by (simp add: put_collection_def update_conv')
  have reg2: "map_of (cl_resources creg) (slugify ''unique'') = Some cl"
    using k by (rule ClusterRegistry_get_registered)
  have "content fs2 (location cl) = content fs1 (location cl)"
    using k by (rule ClusterRegistry_get_content)
  also have "\<dots> = content fs (location cl)"
    using CollectionRegistry_get_files [OF c] by (simp add: content_def)
  finally have fl: "files (Cluster_append cl key (to_dict item) fs2) (location cl)
               = Some (content (snd s) (location cl) @ [(key, to_dict item)])"
    by (simp add: Cluster_append_def content_append_line s)
  have loc: "location cl = path_join (path_join (co_root (collections st)) (slugify coll))
                               (slugify ''unique'' @ ''.dat'')"
    if fresh: "map_of (co_resources (collections st)) (slugify coll) = None"
  proof -
    have ci: "cobj = Collection_init (path_join (co_root (collections st)) (slugify coll))"
      using c fresh by (rule CollectionRegistry_get_fresh)
    then have "map_of (cl_resources (clusters cobj)) (slugify ''unique'') = None"
      by (simp add: Collection_init_def ClusterRegistry_init_def)
    from ClusterRegistry_get_fresh [OF k this] ci show ?thesis
      by (simp add: Collection_init_def ClusterRegistry_init_def)
  qed
  show "\<exists>cobj reg fs1 cl creg fs2 st'.
            CollectionRegistry_get slugify coll (collections (fst s), snd s) = (cobj, reg, fs1)
          \<and> ClusterRegistry_get slugify ''unique'' (clusters cobj, fs1) = (cl, creg, fs2)
          \<and> Store_store_item slugify to_dict item coll None key s
               = (st', Cluster_append cl key (to_dict item) fs2)
          \<and> map_of (co_resources (collections st')) (slugify coll) = Some (cobj\<lparr>clusters := creg\<rparr>)
          \<and> map_of (cl_resources creg) (slugify ''unique'') = Some cl
          \<and> files (Cluster_append cl key (to_dict item) fs2) (location cl)
               = Some (content (snd s) (location cl) @ [(key, to_dict item)])
          \<and> (map_of (co_resources (collections (fst s))) (slugify coll) = None \<longrightarrow>
               location cl = path_join (path_join (co_root (collections (fst s))) (slugify coll))
                               (slugify ''unique'' @ ''.dat''))"
    unfolding s fst_conv snd_conv
    using c k run [unfolded s] reg1 reg2 fl [unfolded s snd_conv] loc
    by (intro exI conjI impI) (assumption+)
next
  show "\<forall>r s'. Catalog_get slugify known from_tuple m k None s = (Inr r, s') \<longrightarrow>
            (\<exists>n cobj st fs cl creg ls.
                find_model_collection slugify known m s = Some (n, cobj, (st, fs))
              \<and> ClusterRegistry_get slugify ''default'' (clusters cobj, fs) = (cl, creg, snd s')
              \<and> map_of (cl_resources creg) (slugify ''default'') = Some cl
              \<and> files (snd s') (location cl) = Some ls
              \<and> r = get_loop from_tuple k (replay ls))"
  proof (intro allI impI)
    fix r s' assume "Catalog_get slugify known from_tuple m k None s = (Inr r, s')"
    from Catalog_get_Inr [OF this] obtain n cobj st fs cl creg ls where
      *: "find_model_collection slugify known m s = Some (n, cobj, (st, fs))"
         "ClusterRegistry_get slugify ''default'' (clusters cobj, fs) = (cl, creg, snd s')"
         "files (snd s') (location cl) = Some ls"
         "r = get_loop from_tuple k (replay ls)"
      by (auto simp: or_default_def)
    from ClusterRegistry_get_registered [OF *(2)] *
    show "\<exists>n cobj st fs cl creg ls.
                find_model_collection slugify known m s = Some (n, cobj, (st, fs))
              \<and> ClusterRegistry_get slugify ''default'' (clusters cobj, fs) = (cl, creg, snd s')
              \<and> map_of (cl_resources creg) (slugify ''default'') = Some cl
              \<and> files (snd s') (location cl) = Some ls
              \<and> r = get_loop from_tuple k (replay ls)" by blast
  qed
next
  show "\<forall>r s'. Catalog_filter slugify known from_tuple m a b None s = (Inr r, s') \<longrightarrow>
            (\<exists>n cobj st fs cl creg ls.
                find_model_collection slugify known m s = Some (n, cobj, (st, fs))
              \<and> ClusterRegistry_get slugify ''default'' (clusters cobj, fs) = (cl, creg, snd s')
              \<and> map_of (cl_resources creg) (slugify ''default'') = Some cl
              \<and> files (snd s') (location cl) = Some ls
              \<and> r = filter_loop from_tuple a b (replay ls))"
  proof (intro allI impI)
    fix r s' assume "Catalog_filter slugify known from_tuple m a b None s = (Inr r, s')"
    from Catalog_filter_Inr [OF this] obtain n cobj st fs cl creg ls where
      *: "find_model_collection slugify known m s = Some (n, cobj, (st, fs))"
         "ClusterRegistry_get slugify ''default'' (clusters cobj, fs) = (cl, creg, snd s')"
         "files (snd s') (location cl) = Some ls"
         "r = filter_loop from_tuple a b (replay ls)"
      by (auto simp: or_default_def)
    from ClusterRegistry_get_registered [OF *(2)] *
    show "\<exists>n cobj st fs cl creg ls.
                find_model_collection slugify known m s = Some (n, cobj, (st, fs))
              \<and> ClusterRegistry_get slugify ''default'' (clusters cobj, fs) = (cl, creg, snd s')
              \<and> map_of (cl_resources creg) (slugify ''default'') = Some cl
              \<and> files (snd s') (location cl) = Some ls
              \<and> r = filter_loop from_tuple a b (replay ls)" by blast
  qed
qed

lemma new_process_fresh:
  "map_of (co_resources (collections (fst new_process))) ((\<lambda>s. s) ''currencies'') = None"
  by (simp add: new_process_def Store_init_def CollectionRegistry_init_def)

lemma new_process_get_default:
  "fst (Catalog_get (\<lambda>s. s) [(''currencies'', catalog_CurrencyFile)] (\<lambda>d. d) Currency ''USD'' None new_process)
     = Inr (Some ''USD'')"
  by (simp add: catalog_defs hierarchy_defs catalog_CurrencyFile_def)

lemma new_process_filter_default:
  "fst (Catalog_filter (\<lambda>s. s) [(''currencies'', catalog_CurrencyFile)] (\<lambda>d. d) Currency ''A'' ''Z'' None new_process)
     = Inr ([''USD''], None)"
  by (simp add: catalog_defs hierarchy_defs catalog_CurrencyFile_def)

theorem fallback_slugs_witness:
  "map_of (co_resources (collections (fst new_process))) ''currencies'' = None
   \<and> fst (Catalog_get (\<lambda>s. s) [(''currencies'', catalog_CurrencyFile)] (\<lambda>d. d) Currency ''USD'' None new_process)
       = Inr (Some ''USD'')
   \<and> fst (Catalog_filter (\<lambda>s. s) [(''currencies'', catalog_CurrencyFile)] (\<lambda>d. d) Currency ''A'' ''Z'' None new_process)
       = Inr ([''USD''], None)
   \<and> files (snd (Store_store_item (\<lambda>s. s) code eur ''currencies'' None (Some ''EUR'') new_process))
         [''store'', ''currencies'', ''unique.dat''] = Some [(Some ''EUR'', ''EUR'')]"
proof -
  note t = fallback_slugs [of "\<lambda>s. s" "''currencies''" new_process code eur "Some ''EUR''"
      "[(''currencies'', catalog_CurrencyFile)]" "\<lambda>d. d" Currency "''USD''" "''A''" "''Z''"]
  from conjunct1 [OF t] obtain cobj reg fs1 cl creg fs2 st' where
    run: "Store_store_item (\<lambda>s. s) code eur ''currencies'' None (Some ''EUR'') new_process
            = (st', Cluster_append cl (Some ''EUR'') (code eur) fs2)"
    and fl: "files (Cluster_append cl (Some ''EUR'') (code eur) fs2) (location cl)
            = Some (content (snd new_process) (location cl) @ [(Some ''EUR'', code eur)])"
    and loc: "map_of (co_resources (collections (fst new_process))) ''currencies'' = None \<longrightarrow>
            location cl = path_join (path_join (co_root (collections (fst new_process))) ''currencies'')
                            (''unique'' @ ''.dat'')"
    by (elim exE conjE) auto
  have fresh: "map_of (co_resources (collections (fst new_process))) ''currencies'' = None"
    using new_process_fresh by simp
  with loc have p: "location cl = [''store'', ''currencies'', ''unique.dat'']"
    by (simp add: path_join_def new_process_def Store_init_def CollectionRegistry_init_def)
  have c: "content (snd new_process) [''store'', ''currencies'', ''unique.dat''] = []"
    by (simp add: content_def new_process_def earlier_files_def)
  have w: "files (snd (Store_store_item (\<lambda>s. s) code eur ''currencies'' None (Some ''EUR'') new_process))
         [''store'', ''currencies'', ''unique.dat''] = Some [(Some ''EUR'', ''EUR'')]"
    using fl unfolding run snd_conv p c by (simp add: eur_def)
  from fresh new_process_get_default new_process_filter_default w show ?thesis by blast
qed

section \<open>DeclaredFile: registration\<close>

lemmas descriptor_defs =
  store_CurrencyFile_def store_CurrencyHolidayFile_def store_MarketFile_def
  store_MarketHolidayFile_def store_ScheduleFile_def
  catalog_CurrencyFile_def catalog_CurrencyHolidayFile_def catalog_MarketFile_def
  catalog_MarketHolidayFile_def catalog_ScheduleFile_def

lemma DeclaredFile_init_subclass_error:
  "DeclaredFile_init_subclass cls known = Inl e \<Longrightarrow>
   e = ValueError ''name must be defined'' \<or> e = ValueError ''model must be defined''"
  by (auto simp: DeclaredFile_init_subclass_def split: option.splits)

lemma define_classes_aborts:
  "cls \<in> set classes \<Longrightarrow> df_name cls = None \<or> df_model cls = None \<Longrightarrow>
   \<exists>msg. define_classes classes known = Inl (ValueError msg)"
proof (induction classes arbitrary: known)
  case Nil then show ?case by simp
next
  case (Cons c classes)
  show ?case
  proof (cases "DeclaredFile_init_subclass c known")
    case (Inl e)
    then show ?thesis using DeclaredFile_init_subclass_error [OF Inl] by auto
  next
    case (Inr known')
    then have "c \<noteq> cls" using Cons.prems(2)
      by (auto simp: DeclaredFile_init_subclass_def split: option.splits)
    then have "cls \<in> set classes" using Cons.prems(1) by simp
    from Cons.IH [OF this Cons.prems(2)] Inr show ?thesis by simp
  qed
qed

text \<open>
  C8. Introducing a descriptor class whose \<open>name\<close> is \<open>None\<close>, or whose \<open>model\<close> is
  \<open>None\<close>, raises \<open>ValueError\<close> in \<open>__init_subclass__\<close>, so the import of a module that
  contains such a class ends with that error and there is no table to ingest from; a class
  with both is entered into the table under its name, and the other entries stay.
\<close>

theorem init_subclass_requires_name_and_model:
  "(df_name cls = None \<longrightarrow>
      DeclaredFile_init_subclass cls known = Inl (ValueError ''name must be defined''))
   \<and> (df_name cls \<noteq> None \<and> df_model cls = None \<longrightarrow>
      DeclaredFile_init_subclass cls known = Inl (ValueError ''model must be defined''))
   \<and> (cls \<in> set classes \<and> (df_name cls = None \<or> df_model cls = None) \<longrightarrow>
      (\<exists>msg. define_classes classes known = Inl (ValueError msg)))
   \<and> (df_name cls = Some n \<and> df_model cls = Some m \<longrightarrow>
      (\<exists>known'. DeclaredFile_init_subclass cls known = Inr known'
         \<and> map_of known' = (map_of known)(n \<mapsto> cls)))"
proof (intro conjI impI)
  assume "df_name cls = None"
  then show "DeclaredFile_init_subclass cls known = Inl (ValueError ''name must be defined'')"
    by (simp add: DeclaredFile_init_subclass_def)
next
  assume "df_name cls \<noteq> None \<and> df_model cls = None"
  then show "DeclaredFile_init_subclass cls known = Inl (ValueError ''model must be defined'')"
    by (auto simp: DeclaredFile_init_subclass_def)
next
  assume "cls \<in> set classes \<and> (df_name cls = None \<or> df_model cls = None)"
  then show "\<exists>msg. define_classes classes known = Inl (ValueError msg)"
    using define_classes_aborts by blast
next
  assume "df_name cls = Some n \<and> df_model cls = Some m"
  then show "\<exists>known'. DeclaredFile_init_subclass cls known = Inr known'
         \<and> map_of known' = (map_of known)(n \<mapsto> cls)"
    by (simp add: DeclaredFile_init_subclass_def update_conv')
qed

theorem init_subclass_requires_name_and_model_witness:
  "df_name (store_MarketFile\<lparr>df_name := None\<rparr> :: string declared_file) = None
   \<and> DeclaredFile_init_subclass (store_MarketFile\<lparr>df_name := None\<rparr>) [(''currencies'', store_CurrencyFile :: string declared_file)]
       = Inl (ValueError ''name must be defined'')
   \<and> df_model (store_MarketFile\<lparr>df_model := None\<rparr> :: string declared_file) = None
   \<and> DeclaredFile_init_subclass (store_MarketFile\<lparr>df_model := None\<rparr>) [(''currencies'', store_CurrencyFile :: string declared_file)]
       = Inl (ValueError ''model must be defined'')
   \<and> (\<exists>msg. define_classes [store_CurrencyFile, store_MarketFile\<lparr>df_model := None\<rparr>, store_MarketHolidayFile] ([] :: string known_files)
        = Inl (ValueError msg))
   \<and> (\<exists>known'. DeclaredFile_init_subclass store_MarketFile [(''currencies'', store_CurrencyFile :: string declared_file)] = Inr known'
        \<and> map_of known' = [''currencies'' \<mapsto> store_CurrencyFile, ''markets'' \<mapsto> store_MarketFile])"
proof -
  have 1: "df_name (store_MarketFile\<lparr>df_name := None\<rparr> :: string declared_file) = None" by simp
  have 2: "df_name (store_MarketFile\<lparr>df_model := None\<rparr> :: string declared_file) \<noteq> None
           \<and> df_model (store_MarketFile\<lparr>df_model := None\<rparr> :: string declared_file) = None"
    by (simp add: store_MarketFile_def)
  have 3: "(store_MarketFile\<lparr>df_model := None\<rparr> :: string declared_file)
             \<in> set [store_CurrencyFile, store_MarketFile\<lparr>df_model := None\<rparr>, store_MarketHolidayFile]
           \<and> (df_name (store_MarketFile\<lparr>df_model := None\<rparr> :: string declared_file) = None
              \<or> df_model (store_MarketFile\<lparr>df_model := None\<rparr> :: string declared_file) = None)"
    by simp
  have 4: "df_name (store_MarketFile :: string declared_file) = Some ''markets''
           \<and> df_model (store_MarketFile :: string declared_file) = Some Market"
    by (simp add: store_MarketFile_def)
  note a = init_subclass_requires_name_and_model
      [of "store_MarketFile\<lparr>df_name := None\<rparr> :: string declared_file"
          "[(''currencies'', store_CurrencyFile)]"]
  note b = init_subclass_requires_name_and_model
      [of "store_MarketFile\<lparr>df_model := None\<rparr> :: string declared_file"
          "[(''currencies'', store_CurrencyFile)]"]
  note c = init_subclass_requires_name_and_model
      [of "store_MarketFile\<lparr>df_model := None\<rparr> :: string declared_file" _
          "[store_CurrencyFile, store_MarketFile\<lparr>df_model := None\<rparr>, store_MarketHolidayFile]" "[]"]
  note d = init_subclass_requires_name_and_model
      [of "store_MarketFile :: string declared_file" "[(''currencies'', store_CurrencyFile)]" _ "''markets''" Market]
  have r1: "DeclaredFile_init_subclass (store_MarketFile\<lparr>df_name := None\<rparr>) [(''currencies'', store_CurrencyFile :: string declared_file)]
       = Inl (ValueError ''name must be defined'')"
    using a 1 by blast
  have r2: "DeclaredFile_init_subclass (store_MarketFile\<lparr>df_model := None\<rparr>) [(''currencies'', store_CurrencyFile :: string declared_file)]
       = Inl (ValueError ''model must be defined'')"
    using b 2 by blast
  have r3: "\<exists>msg. define_classes [store_CurrencyFile, store_MarketFile\<lparr>df_model := None\<rparr>, store_MarketHolidayFile] ([] :: string known_files)
        = Inl (ValueError msg)"
    using c 3 by blast
  have r4: "\<exists>known'. DeclaredFile_init_subclass store_MarketFile [(''currencies'', store_CurrencyFile :: string declared_file)] = Inr known'
        \<and> map_of known' = [''currencies'' \<mapsto> store_CurrencyFile, ''markets'' \<mapsto> store_MarketFile]"
    using d 4 by simp
  from 1 2 r1 r2 r3 r4 show ?thesis by blast
qed

section \<open>DeclaredFile: the tables of the two modules\<close>

lemma define_store_classes:
  "define_classes (store_classes slugify) [] = Inr (store_known_files (loaded_tables slugify))"
  by (simp add: store_classes_def loaded_tables_def DeclaredFile_init_subclass_def descriptor_defs)

lemma define_catalog_classes:
  "define_classes (catalog_classes slugify) [] = Inr (catalog_known_files (loaded_tables slugify))"
  by (simp add: catalog_classes_def loaded_tables_def DeclaredFile_init_subclass_def descriptor_defs)

section \<open>Collection: clear\<close>

lemma files_fold_Cluster_delete:
  "files (fold Cluster_delete cs fs) p = (if p \<in> location ` set cs then None else files fs p)"
  by (induction cs arbitrary: fs) (auto simp: Cluster_delete_def unlink_def)

lemma Collection_clear_registered:
  "clusters (fst (Collection_clear c fs)) = ClusterRegistry_init (folder c)
   \<and> files (snd (Collection_clear c fs)) p =
       (if p \<in> location ` set (Registry_iter (cl_resources (clusters c))) then None else files fs p)"
  by (simp add: Collection_clear_def files_fold_Cluster_delete)

section \<open>Ingestion: a source that raises\<close>

lemma Store_ingest_all_append:
  "Store_ingest_all slugify to_dict from_csv (ds1 @ ds2) data_folder s0 =
     (case Store_ingest_all slugify to_dict from_csv ds1 data_folder s0 of
        (None, s1) \<Rightarrow> Store_ingest_all slugify to_dict from_csv ds2 data_folder s1
      | (Some e, s1) \<Rightarrow> (Some e, s1))"
proof (induction ds1 arbitrary: s0)
  case Nil
  then show ?case by simp
next
  case (Cons a ds1)
  obtain n d where a: "a = (n, d)" by (cases a)
  show ?case
    by (simp add: a Cons.IH split: sum.splits prod.splits option.splits)
qed

lemma content_append_line_other:
  "content (append_line q l fs) p = (if p = q then content fs p @ [l] else content fs p)"
  by (simp add: append_line_def content_def)

lemma Store_store_item_content:
  "prefix (content (snd s) p)
     (content (snd (Store_store_item slugify to_dict item coll cluster key s)) p)"
proof -
  obtain st fs where s: "s = (st, fs)" by (cases s)
  obtain cobj reg fs1 where c: "CollectionRegistry_get slugify coll (collections st, fs) = (cobj, reg, fs1)"
    by (cases "CollectionRegistry_get slugify coll (collections st, fs)")
  obtain cl creg fs2 where k: "ClusterRegistry_get slugify (case cluster of None \<Rightarrow> ''unique'' | Some c \<Rightarrow> c)
      (clusters cobj, fs1) = (cl, creg, fs2)"
    by (cases "ClusterRegistry_get slugify (case cluster of None \<Rightarrow> ''unique'' | Some c \<Rightarrow> c) (clusters cobj, fs1)")
  have 1: "content fs1 q = content fs q" for q
    using CollectionRegistry_get_files [OF c] by (simp add: content_def)
  have 2: "content fs2 q = content fs1 q" for q
    using k by (rule ClusterRegistry_get_content)
  show ?thesis
    by (simp add: s Store_store_item_unfold [OF c k] Cluster_append_def content_append_line_other 1 2)
qed

lemma fold_Store_store_item_content:
  "prefix (content (snd s) p)
     (content (snd (fold (\<lambda>current. Store_store_item slugify to_dict current (rc current) (rk current) (rq current)) loaded s)) p)"
proof (induction loaded arbitrary: s)
  case Nil
  then show ?case by simp
next
  case (Cons a loaded)
  have "prefix (content (snd s) p)
          (content (snd (Store_store_item slugify to_dict a (rc a) (rk a) (rq a) s)) p)"
    by (rule Store_store_item_content)
  also have "prefix \<dots> (content (snd (fold (\<lambda>current. Store_store_item slugify to_dict current (rc current) (rk current) (rq current))
       loaded (Store_store_item slugify to_dict a (rc a) (rk a) (rq a) s))) p)"
    by (rule Cons.IH)
  finally show ?case by simp
qed

lemma Store_clear_collection_content:
  "content (snd (Store_clear_collection slugify name s)) p =
     (if p \<in> cleared_locations slugify name s then [] else content (snd s) p)"
proof -
  obtain st fs where s: "s = (st, fs)" by (cases s)
  obtain cobj reg fs1 where c: "CollectionRegistry_get slugify name (collections st, fs) = (cobj, reg, fs1)"
    by (cases "CollectionRegistry_get slugify name (collections st, fs)")
  have f: "files fs1 = files fs" using c by (rule CollectionRegistry_get_files)
  show ?thesis
    by (simp add: s Store_clear_collection_def cleared_locations_def c Collection_clear_def
        content_def files_fold_Cluster_delete f)
qed

section \<open>The invariant of the store\<close>

text \<open>
  A new \<open>Store\<close> is in such a state, and \<open>store_item\<close>, \<open>clear_collection\<close> and the
  lookups of the registries keep it.
\<close>

lemma list_all_update:
  "list_all P al \<Longrightarrow> P (k, v) \<Longrightarrow> list_all P (AList.update k v al)"
  by (induction al) auto

lemma map_of_list_all:
  "list_all P al \<Longrightarrow> map_of al k = Some v \<Longrightarrow> P (k, v)"
  by (auto simp: list_all_iff dest: map_of_SomeD)

lemma set_update_distinct:
  "distinct (map fst al) \<Longrightarrow>
   set (AList.update k v al) = insert (k, v) {e \<in> set al. fst e \<noteq> k}"
  by (induction al) (auto simp: image_iff)

lemma path_join_inject:
  "path_join (path_join r a) x = path_join (path_join r b) y \<Longrightarrow> a = b"
  by (simp add: path_join_def)

lemma wf_collection_mono:
  "wf_collection r fs e \<Longrightarrow> (\<And>p. files fs p \<noteq> None \<Longrightarrow> files fs' p \<noteq> None) \<Longrightarrow>
   wf_collection r fs' e"
  by (auto simp: wf_collection_def list_all_iff)

lemma wf_world_mono:
  "wf_world (st, fs) \<Longrightarrow> (\<And>p. files fs p \<noteq> None \<Longrightarrow> files fs' p \<noteq> None) \<Longrightarrow>
   wf_world (st, fs')"
  by (auto simp: wf_world_def list_all_iff intro: wf_collection_mono)

lemma wf_world_Store_init: "wf_world (Store_init r, fs)"
  by (simp add: wf_world_def Store_init_def CollectionRegistry_init_def)

lemma wf_collection_init: "wf_collection r fs (slug, Collection_init (path_join r slug))"
  by (simp add: wf_collection_def Collection_init_def ClusterRegistry_init_def)

lemma wf_put_collection:
  "wf_world (st, fs) \<Longrightarrow> wf_collection (co_root (collections st)) fs (slug, c) \<Longrightarrow>
   wf_world (put_collection slug c st, fs)"
  by (simp add: wf_world_def put_collection_def distinct_update list_all_update)

lemma wf_CollectionRegistry_get:
  assumes w: "wf_world (st, fs)"
    and g: "CollectionRegistry_get slugify n (collections st, fs) = (c, reg, fs')"
  shows "wf_world (st\<lparr>collections := reg\<rparr>, fs')
       \<and> wf_collection (co_root (collections st)) fs' (slugify n, c)
       \<and> co_root reg = co_root (collections st)
       \<and> map_of (co_resources reg) (slugify n) = Some c
       \<and> files fs' = files fs"
proof (cases "map_of (co_resources (collections st)) (slugify n)")
  case (Some c0)
  then have e: "c = c0" "reg = collections st" "fs' = fs"
    using g by (auto simp: CollectionRegistry_get_def Registry_get_def)
  have "wf_collection (co_root (collections st)) fs (slugify n, c0)"
    using w Some by (auto simp: wf_world_def intro: map_of_list_all)
  then show ?thesis using w Some by (simp add: e)
next
  case None
  let ?c = "Collection_init (path_join (co_root (collections st)) (slugify n))"
  have e: "c = ?c"
    "reg = (collections st)\<lparr>co_resources := AList.update (slugify n) ?c (co_resources (collections st))\<rparr>"
    "fs' = mkdir (path_join (co_root (collections st)) (slugify n)) fs"
    using g None
    by (auto simp: CollectionRegistry_get_def Registry_get_def CollectionRegistry_create_def
        Collection_touch_def Collection_init_def Let_def)
  have f: "files fs' = files fs" by (simp add: e mkdir_def)
  have w': "wf_world (st, fs')" using w by (rule wf_world_mono) (simp add: f)
  have wc: "wf_collection (co_root (collections st)) fs' (slugify n, ?c)" by (rule wf_collection_init)
  have "wf_world (put_collection (slugify n) ?c st, fs')" using w' wc by (rule wf_put_collection)
  then have "wf_world (st\<lparr>collections := reg\<rparr>, fs')" by (simp add: put_collection_def e)
  then show ?thesis using wc f by (simp add: e update_conv')
qed

lemma wf_ClusterRegistry_get:
  assumes w: "wf_collection r fs (slug, c)"
    and g: "ClusterRegistry_get slugify k (clusters c, fs) = (cl, creg, fs')"
  shows "wf_collection r fs' (slug, c\<lparr>clusters := creg\<rparr>)
       \<and> files fs' (location cl) \<noteq> None
       \<and> location cl = path_join (folder c) (slugify k @ ''.dat'')
       \<and> (\<forall>p. files fs p \<noteq> None \<longrightarrow> files fs' p = files fs p)"
proof (cases "map_of (cl_resources (clusters c)) (slugify k)")
  case (Some c0)
  then have e: "cl = c0" "creg = clusters c" "fs' = fs"
    using g by (auto simp: ClusterRegistry_get_def Registry_get_def)
  have "location c0 = path_join (folder c) (slugify k @ ''.dat'') \<and> files fs (location c0) \<noteq> None"
    using w map_of_SomeD [OF Some] by (force simp: wf_collection_def list_all_iff)
  then show ?thesis using w by (auto simp: e)
next
  case None
  let ?cl = "\<lparr>location = path_join (cl_folder (clusters c)) (slugify k @ ''.dat'')\<rparr>"
  have e: "cl = ?cl"
    "creg = (clusters c)\<lparr>cl_resources := AList.update (slugify k) ?cl (cl_resources (clusters c))\<rparr>"
    "fs' = touch_file (location ?cl) fs"
    using g None
    by (auto simp: ClusterRegistry_get_def Registry_get_def ClusterRegistry_create_def
        Cluster_touch_def Let_def)
  have m: "files fs p \<noteq> None \<longrightarrow> files fs' p = files fs p" for p
    by (auto simp: e touch_file_def split: option.splits)
  have x: "files fs' (location ?cl) \<noteq> None"
    by (auto simp: e touch_file_def split: option.splits)
  have cf: "cl_folder (clusters c) = folder c" using w by (simp add: wf_collection_def)
  let ?P = "\<lambda>k. location (snd k) = path_join (folder c) (fst k @ ''.dat'')
                       \<and> files fs' (location (snd k)) \<noteq> None"
  have wc': "wf_collection r fs' (slug, c)"
    using w by (rule wf_collection_mono) (use m in auto)
  then have la: "list_all ?P (cl_resources (clusters c))"
    unfolding wf_collection_def fst_conv snd_conv by blast
  have pn: "?P (slugify k, ?cl)" using x by (simp add: cf)
  have "list_all ?P (AList.update (slugify k) ?cl (cl_resources (clusters c)))"
    using la pn by (rule list_all_update)
  then have "wf_collection r fs' (slug, c\<lparr>clusters := creg\<rparr>)"
    using wc' unfolding wf_collection_def fst_conv snd_conv by (simp add: e(2) distinct_update)
  then show ?thesis using m x by (simp add: e(1) cf)
qed

lemma wf_Store_store_item:
  assumes w: "wf_world s"
  shows "wf_world (Store_store_item slugify to_dict item coll cluster key s)"
proof -
  obtain st fs where s: "s = (st, fs)" by (cases s)
  obtain cobj reg fs1 where c: "CollectionRegistry_get slugify coll (collections st, fs) = (cobj, reg, fs1)"
    by (cases "CollectionRegistry_get slugify coll (collections st, fs)")
  obtain cl creg fs2 where k: "ClusterRegistry_get slugify (case cluster of None \<Rightarrow> ''unique'' | Some c \<Rightarrow> c)
      (clusters cobj, fs1) = (cl, creg, fs2)"
    by (cases "ClusterRegistry_get slugify (case cluster of None \<Rightarrow> ''unique'' | Some c \<Rightarrow> c) (clusters cobj, fs1)")
  note a = wf_CollectionRegistry_get [OF w [unfolded s] c]
  note b = wf_ClusterRegistry_get [OF conjunct1 [OF conjunct2 [OF a]] k]
  have 1: "wf_world (st\<lparr>collections := reg\<rparr>, fs2)"
    using conjunct1 [OF a] by (rule wf_world_mono) (use b in auto)
  have 2: "wf_world (put_collection (slugify coll) (cobj\<lparr>clusters := creg\<rparr>) (st\<lparr>collections := reg\<rparr>), fs2)"
    using 1 by (rule wf_put_collection) (use a b in simp)
  have "wf_world (put_collection (slugify coll) (cobj\<lparr>clusters := creg\<rparr>) (st\<lparr>collections := reg\<rparr>),
          Cluster_append cl key (to_dict item) fs2)"
    using 2 by (rule wf_world_mono) (simp add: Cluster_append_def append_line_def)
  then show ?thesis by (simp add: s Store_store_item_unfold [OF c k])
qed

lemma wf_Store_clear_collection:
  assumes w: "wf_world s"
  shows "wf_world (Store_clear_collection slugify name s)"
proof -
  obtain st fs where s: "s = (st, fs)" by (cases s)
  obtain cobj reg fs1 where c: "CollectionRegistry_get slugify name (collections st, fs) = (cobj, reg, fs1)"
    by (cases "CollectionRegistry_get slugify name (collections st, fs)")
  note a = wf_CollectionRegistry_get [OF w [unfolded s] c]
  let ?r = "co_root (collections st)"
  let ?slug = "slugify name"
  let ?fs2 = "fold Cluster_delete (Registry_iter (cl_resources (clusters cobj))) fs1"
  let ?c' = "cobj\<lparr>clusters := ClusterRegistry_init (folder cobj)\<rparr>"
  have w1: "wf_world (st\<lparr>collections := reg\<rparr>, fs1)" using a by simp
  have wc: "wf_collection ?r fs1 (?slug, cobj)" using a by simp
  have root: "co_root reg = ?r" using a by simp
  have reg: "map_of (co_resources reg) ?slug = Some cobj" using a by simp
  have del: "p \<in> location ` set (Registry_iter (cl_resources (clusters cobj))) \<Longrightarrow>
             \<exists>x. p = path_join (path_join ?r ?slug) x" for p
    using wc by (force simp: wf_collection_def list_all_iff Registry_iter_def)
  have keep: "wf_collection ?r ?fs2 e" if e: "e \<in> set (co_resources reg)" and ne: "fst e \<noteq> ?slug" for e
  proof -
    have we: "wf_collection ?r fs1 e" using w1 e by (simp add: wf_world_def list_all_iff root)
    have "files ?fs2 (location (snd k)) \<noteq> None" if k: "k \<in> set (cl_resources (clusters (snd e)))" for k
    proof -
      have l: "location (snd k) = path_join (path_join ?r (fst e)) (fst k @ ''.dat'')"
        and x: "files fs1 (location (snd k)) \<noteq> None"
        using we k by (auto simp: wf_collection_def list_all_iff)
      have "location (snd k) \<notin> location ` set (Registry_iter (cl_resources (clusters cobj)))"
      proof
        assume "location (snd k) \<in> location ` set (Registry_iter (cl_resources (clusters cobj)))"
        from del [OF this] obtain y where "location (snd k) = path_join (path_join ?r ?slug) y" ..
        with l have "fst e = ?slug" by (auto dest: path_join_inject)
        with ne show False by simp
      qed
      then show ?thesis using x by (simp add: files_fold_Cluster_delete)
    qed
    then show ?thesis using we by (auto simp: wf_collection_def list_all_iff)
  qed
  have new: "wf_collection ?r ?fs2 (?slug, ?c')"
    using wc by (simp add: wf_collection_def ClusterRegistry_init_def)
  have d: "distinct (map fst (co_resources reg))" using w1 by (simp add: wf_world_def)
  have "wf_world (put_collection ?slug ?c' (st\<lparr>collections := reg\<rparr>), ?fs2)"
    using d new keep
    by (auto simp: wf_world_def put_collection_def distinct_update list_all_iff root
        set_update_distinct)
  then show ?thesis
    by (simp add: s Store_clear_collection_def c Collection_clear_def)
qed

section \<open>Catalog: point lookup\<close>

lemma find_model_collection_find:
  "find_model_collection slugify known m (st, fs) =
     (case find (\<lambda>e. df_model (snd e) = Some m) known of
        None \<Rightarrow> None
      | Some (n, d) \<Rightarrow>
          (let (c, reg, fs') = CollectionRegistry_get slugify n (collections st, fs)
           in Some (n, c, (st\<lparr>collections := reg\<rparr>, fs'))))"
  by (induction known) auto

lemma wf_read_cluster:
  assumes w: "wf_world s"
    and d: "find (\<lambda>e. df_model (snd e) = Some m) known = Some (n, d)"
  shows "\<exists>cobj st1 fs1 cl creg fs2.
           find_model_collection slugify known m s = Some (n, cobj, (st1, fs1))
         \<and> ClusterRegistry_get slugify cname (clusters cobj, fs1) = (cl, creg, fs2)
         \<and> files fs2 (location cl) = Some (content (snd s) (cluster_file slugify s n cname))
         \<and> wf_world (put_collection (slugify n) (cobj\<lparr>clusters := creg\<rparr>) st1, fs2)"
proof -
  obtain st fs where s: "s = (st, fs)" by (cases s)
  obtain cobj reg fs1 where c: "CollectionRegistry_get slugify n (collections st, fs) = (cobj, reg, fs1)"
    by (cases "CollectionRegistry_get slugify n (collections st, fs)")
  obtain cl creg fs2 where k: "ClusterRegistry_get slugify cname (clusters cobj, fs1) = (cl, creg, fs2)"
    by (cases "ClusterRegistry_get slugify cname (clusters cobj, fs1)")
  note a = wf_CollectionRegistry_get [OF w [unfolded s] c]
  note b = wf_ClusterRegistry_get [OF conjunct1 [OF conjunct2 [OF a]] k]
  have f: "find_model_collection slugify known m s = Some (n, cobj, (st\<lparr>collections := reg\<rparr>, fs1))"
    by (simp add: s find_model_collection_find d c)
  have loc: "location cl = cluster_file slugify s n cname"
    using a b by (simp add: wf_collection_def cluster_file_def s)
  have "content fs2 (location cl) = content fs1 (location cl)"
    using k by (rule ClusterRegistry_get_content)
  also have "\<dots> = content fs (location cl)" using a by (simp add: content_def)
  finally have ct: "content fs2 (location cl) = content (snd s) (cluster_file slugify s n cname)"
    by (simp add: loc s)
  have "files fs2 (location cl) \<noteq> None" using b by blast
  then have fl: "files fs2 (location cl) = Some (content (snd s) (cluster_file slugify s n cname))"
    using ct by (auto simp: content_def)
  have 1: "wf_world (st\<lparr>collections := reg\<rparr>, fs2)"
    using conjunct1 [OF a] by (rule wf_world_mono) (use b in auto)
  have 2: "wf_world (put_collection (slugify n) (cobj\<lparr>clusters := creg\<rparr>) (st\<lparr>collections := reg\<rparr>), fs2)"
    using 1 by (rule wf_put_collection) (use a b in simp)
  from f k fl 2 show ?thesis by blast
qed

text \<open>
  C4 (as amended). For a model type that has a descriptor, in a state as the operations
  of the store leave it, \<open>Catalog.get\<close> returns: the decoding of the first entry of the
  loaded mapping whose key is the requested key, where the mapping is loaded from the file
  of the cluster that the descriptor's name and the cluster name (or \<open>default\<close>) resolve
  to; \<open>None\<close> exactly when no line of that file has the key, in particular for a cluster
  that was never written, whose file \<open>get\<close> creates empty; and a record it returns is the
  decoding of a line stored under that key. The state it leaves is again such a state.
\<close>

theorem Catalog_get_first_match:
  assumes w: "wf_world s"
    and d: "find (\<lambda>e. df_model (snd e) = Some m) known = Some (n, d)"
    and p: "p = cluster_file slugify s n (or_default cluster)"
  shows "fst (Catalog_get slugify known from_tuple m key cluster s)
           = Inr (map_option (from_tuple \<circ> snd)
                    (find (\<lambda>e. fst e = Some key) (replay (content (snd s) p))))
       \<and> (fst (Catalog_get slugify known from_tuple m key cluster s) = Inr None
            \<longleftrightarrow> Some key \<notin> fst ` set (content (snd s) p))
       \<and> (\<forall>b. fst (Catalog_get slugify known from_tuple m key cluster s) = Inr (Some b)
              \<longrightarrow> (\<exists>x. (Some key, x) \<in> set (content (snd s) p) \<and> b = from_tuple x))
       \<and> wf_world (snd (Catalog_get slugify known from_tuple m key cluster s))"
proof -
  let ?ls = "content (snd s) p"
  let ?r = "get_loop from_tuple key (replay ?ls)"
  from wf_read_cluster [OF w d, of slugify "or_default cluster"]
  obtain cobj st1 fs1 cl creg fs2 where
    f: "find_model_collection slugify known m s = Some (n, cobj, (st1, fs1))"
    and g: "ClusterRegistry_get slugify (or_default cluster) (clusters cobj, fs1) = (cl, creg, fs2)"
    and l: "files fs2 (location cl) = Some ?ls"
    and w': "wf_world (put_collection (slugify n) (cobj\<lparr>clusters := creg\<rparr>) st1, fs2)"
    unfolding p by blast
  have run: "fst (Catalog_get slugify known from_tuple m key cluster s) = Inr ?r"
    by (simp add: Catalog_get_unfold [OF f g l])
  have st: "wf_world (snd (Catalog_get slugify known from_tuple m key cluster s))"
    using w' by (simp add: Catalog_get_unfold [OF f g l])
  have r': "?r = map_option from_tuple (map_of (rev ?ls) (Some key))"
    by (simp add: get_loop_replay)
  have none: "?r = None \<longleftrightarrow> Some key \<notin> fst ` set ?ls"
    by (simp add: r' map_of_eq_None_iff)
  have some: "\<exists>x. (Some key, x) \<in> set ?ls \<and> b = from_tuple x" if "?r = Some b" for b
  proof -
    from that obtain x where "map_of (rev ?ls) (Some key) = Some x" "b = from_tuple x"
      using r' by auto
    then show ?thesis using map_of_SomeD [of "rev ?ls" "Some key" x] by auto
  qed
  show ?thesis unfolding run using none some st by (auto simp: get_loop_find)
qed

lemma wf_new_process: "wf_world new_process"
  by (simp add: new_process_def wf_world_Store_init)

lemma currencies_descriptor:
  "find (\<lambda>e. df_model (snd e) = Some Currency)
     (catalog_known_files (loaded_tables sample_slugify :: string tables))
   = Some (''currencies'', catalog_CurrencyFile)"
  by (simp add: loaded_tables_def descriptor_defs)

lemma holidays_descriptor:
  "find (\<lambda>e. df_model (snd e) = Some MarketHoliday)
     (catalog_known_files (loaded_tables sample_slugify :: string tables))
   = Some (''holidays'', catalog_MarketHolidayFile)"
  by (simp add: loaded_tables_def descriptor_defs)

lemma default_currencies_file:
  "[''store'', ''currencies'', ''default.dat'']
     = cluster_file sample_slugify new_process ''currencies'' (or_default None)"
  by (simp add: cluster_file_def new_process_def Store_init_def CollectionRegistry_init_def
      path_join_def or_default_def sample_slugify_def lower_def)

lemma never_written_file:
  "[''store'', ''holidays'', ''uk-lse.dat'']
     = cluster_file sample_slugify new_process ''holidays'' (or_default (Some ''UK.LSE''))"
  by (simp add: cluster_file_def new_process_def Store_init_def CollectionRegistry_init_def
      path_join_def or_default_def sample_slugify_def lower_def)

lemma default_currencies_content:
  "content (snd new_process) [''store'', ''currencies'', ''default.dat''] = [(Some ''USD'', ''USD'')]"
  by (simp add: content_def new_process_def earlier_files_def)

lemma never_written_content:
  "content (snd new_process) [''store'', ''holidays'', ''uk-lse.dat''] = []"
  by (simp add: content_def new_process_def earlier_files_def)

theorem Catalog_get_first_match_witness:
  "wf_world new_process
   \<and> fst (Catalog_get sample_slugify (catalog_known_files (loaded_tables sample_slugify)) id
            Currency ''USD'' None new_process) = Inr (Some ''USD'')
   \<and> fst (Catalog_get sample_slugify (catalog_known_files (loaded_tables sample_slugify)) id
            Currency ''EUR'' None new_process) = Inr None
   \<and> fst (Catalog_get sample_slugify (catalog_known_files (loaded_tables sample_slugify)) id
            MarketHoliday ''2023-12-25'' (Some ''UK.LSE'') new_process) = Inr None"
proof -
  note a = Catalog_get_first_match [OF wf_new_process currencies_descriptor default_currencies_file,
      of id "''USD''"]
  note b = Catalog_get_first_match [OF wf_new_process currencies_descriptor default_currencies_file,
      of id "''EUR''"]
  note c = Catalog_get_first_match [OF wf_new_process holidays_descriptor never_written_file,
      of id "''2023-12-25''"]
  have 1: "fst (Catalog_get sample_slugify (catalog_known_files (loaded_tables sample_slugify)) id
            Currency ''USD'' None new_process) = Inr (Some ''USD'')"
    using conjunct1 [OF a] unfolding default_currencies_content by (simp add: replay_def)
  have 2: "fst (Catalog_get sample_slugify (catalog_known_files (loaded_tables sample_slugify)) id
            Currency ''EUR'' None new_process) = Inr None"
    using conjunct1 [OF conjunct2 [OF b]] unfolding default_currencies_content by simp
  have 3: "fst (Catalog_get sample_slugify (catalog_known_files (loaded_tables sample_slugify)) id
            MarketHoliday ''2023-12-25'' (Some ''UK.LSE'') new_process) = Inr None"
    using conjunct1 [OF conjunct2 [OF c]] unfolding never_written_content by simp
  from wf_new_process 1 2 3 show ?thesis by blast
qed

text \<open>
  C4 as stated fails for a model type without a descriptor: \<open>find_model_collection\<close>
  returns \<open>None\<close>, and \<open>get\<close> raises \<open>AttributeError\<close> instead of returning \<open>None\<close>.
\<close>

theorem Catalog_get_no_descriptor_counterexample:
  "fst (Catalog_get sample_slugify (catalog_known_files (loaded_tables sample_slugify)) id
          (OtherModel ''Index'') ''USD'' None new_process)
     = Inl (AttributeError ''NoneType object has no attribute clusters'')
   \<and> fst (Catalog_get sample_slugify (catalog_known_files (loaded_tables sample_slugify)) id
          (OtherModel ''Index'') ''USD'' None new_process) \<noteq> Inr None"
  by (simp add: Catalog_get_def loaded_tables_def descriptor_defs)

section \<open>Ingestion: what an aborted run leaves\<close>

lemma Store_store_item_changes:
  assumes w: "wf_world s"
  shows "co_root (collections (fst (Store_store_item slugify to_dict item coll cluster key s)))
           = co_root (collections (fst s))
       \<and> (\<forall>p. content (snd (Store_store_item slugify to_dict item coll cluster key s)) p \<noteq> content (snd s) p
             \<longrightarrow> p = cluster_file slugify s coll (case cluster of None \<Rightarrow> ''unique'' | Some c \<Rightarrow> c))"
proof -
  obtain st fs where s: "s = (st, fs)" by (cases s)
  obtain cobj reg fs1 where c: "CollectionRegistry_get slugify coll (collections st, fs) = (cobj, reg, fs1)"
    by (cases "CollectionRegistry_get slugify coll (collections st, fs)")
  obtain cl creg fs2 where k: "ClusterRegistry_get slugify (case cluster of None \<Rightarrow> ''unique'' | Some c \<Rightarrow> c)
      (clusters cobj, fs1) = (cl, creg, fs2)"
    by (cases "ClusterRegistry_get slugify (case cluster of None \<Rightarrow> ''unique'' | Some c \<Rightarrow> c) (clusters cobj, fs1)")
  note a = wf_CollectionRegistry_get [OF w [unfolded s] c]
  note b = wf_ClusterRegistry_get [OF conjunct1 [OF conjunct2 [OF a]] k]
  have loc: "location cl = cluster_file slugify s coll (case cluster of None \<Rightarrow> ''unique'' | Some c \<Rightarrow> c)"
    using a b by (simp add: wf_collection_def cluster_file_def s)
  have 1: "content fs1 q = content fs q" for q using a by (simp add: content_def)
  have 2: "content fs2 q = content fs1 q" for q using k by (rule ClusterRegistry_get_content)
  have root: "co_root reg = co_root (collections st)" using a by simp
  show ?thesis
    using loc
    by (simp add: s Store_store_item_unfold [OF c k] Cluster_append_def content_append_line_other
        1 2 put_collection_def root)
qed

lemma store_all_Cons:
  "store_all slugify to_dict d (a # loaded) s =
     store_all slugify to_dict d loaded
       (Store_store_item slugify to_dict a (resolve_collection d a) (resolve_cluster d a) (resolve_key d a) s)"
  by (simp add: store_all_def)

lemma store_all_changes:
  assumes w: "wf_world s"
    and ne: "\<forall>i. slugify (resolve_collection d i) \<noteq> slug"
  shows "wf_world (store_all slugify to_dict d loaded s)
       \<and> co_root (collections (fst (store_all slugify to_dict d loaded s))) = co_root (collections (fst s))
       \<and> (\<forall>p x. content (snd (store_all slugify to_dict d loaded s)) p \<noteq> content (snd s) p
             \<longrightarrow> p \<noteq> path_join (path_join (co_root (collections (fst s))) slug) x)"
  using w
proof (induction loaded arbitrary: s)
  case Nil
  then show ?case by (simp add: store_all_def)
next
  case (Cons a loaded)
  let ?s1 = "Store_store_item slugify to_dict a (resolve_collection d a) (resolve_cluster d a) (resolve_key d a) s"
  let ?s2 = "store_all slugify to_dict d loaded ?s1"
  have w1: "wf_world ?s1" using Cons.prems by (rule wf_Store_store_item)
  have ch: "co_root (collections (fst ?s1)) = co_root (collections (fst s))
       \<and> (\<forall>p. content (snd ?s1) p \<noteq> content (snd s) p
             \<longrightarrow> p = cluster_file slugify s (resolve_collection d a)
                       (case resolve_cluster d a of None \<Rightarrow> ''unique'' | Some c \<Rightarrow> c))"
    using Cons.prems by (rule Store_store_item_changes)
  have ih: "wf_world ?s2
       \<and> co_root (collections (fst ?s2)) = co_root (collections (fst ?s1))
       \<and> (\<forall>p x. content (snd ?s2) p \<noteq> content (snd ?s1) p
             \<longrightarrow> p \<noteq> path_join (path_join (co_root (collections (fst ?s1))) slug) x)"
    using w1 by (rule Cons.IH)
  have step: "p \<noteq> path_join (path_join (co_root (collections (fst s))) slug) x"
    if "content (snd ?s1) p \<noteq> content (snd s) p" for p x
  proof -
    from that ch have "p = cluster_file slugify s (resolve_collection d a)
                       (case resolve_cluster d a of None \<Rightarrow> ''unique'' | Some c \<Rightarrow> c)"
      by blast
    then show ?thesis using ne by (auto simp: cluster_file_def path_join_def)
  qed
  have both: "p \<noteq> path_join (path_join (co_root (collections (fst s))) slug) x"
    if c: "content (snd ?s2) p \<noteq> content (snd s) p" for p x
  proof (cases "content (snd ?s1) p = content (snd s) p")
    case True
    then have "content (snd ?s2) p \<noteq> content (snd ?s1) p" using c by simp
    then have "p \<noteq> path_join (path_join (co_root (collections (fst ?s1))) slug) x" using ih by blast
    then show ?thesis using ch by simp
  next
    case False
    then show ?thesis by (rule step)
  qed
  have root: "co_root (collections (fst ?s2)) = co_root (collections (fst s))" using ih ch by simp
  show ?case unfolding store_all_Cons using ih root both by blast
qed

lemma Store_ingest_all_changes:
  assumes w: "wf_world s0"
    and ds: "list_all (\<lambda>e. pre_ingest (snd e) = (\<lambda>s. s)
                \<and> (\<forall>i. slugify (resolve_collection (snd e) i) \<noteq> slug)) ds1"
    and run: "Store_ingest_all slugify to_dict from_csv ds1 data_folder s0 = (r, s1)"
  shows "wf_world s1
       \<and> co_root (collections (fst s1)) = co_root (collections (fst s0))
       \<and> (\<forall>p x. content (snd s1) p \<noteq> content (snd s0) p
             \<longrightarrow> p \<noteq> path_join (path_join (co_root (collections (fst s0))) slug) x)"
  using w ds run
proof (induction ds1 arbitrary: s0)
  case Nil
  then show ?case by simp
next
  case (Cons a ds1)
  obtain n d where a: "a = (n, d)" by (cases a)
  have hook: "pre_ingest d = (\<lambda>s. s)" and ne: "\<forall>i. slugify (resolve_collection d i) \<noteq> slug"
    and rest: "list_all (\<lambda>e. pre_ingest (snd e) = (\<lambda>s. s)
                \<and> (\<forall>i. slugify (resolve_collection (snd e) i) \<noteq> slug)) ds1"
    using Cons.prems(2) by (simp_all add: a)
  show ?case
  proof (cases "DeclaredFile_init d data_folder")
    case (Inl e)
    then have "s1 = s0" using Cons.prems(3) by (simp add: a)
    then show ?thesis using Cons.prems(1) by simp
  next
    case (Inr source)
    obtain loaded raised where src: "from_csv (sf_model source) (SourceFile_path source) = (loaded, raised)"
      by (cases "from_csv (sf_model source) (SourceFile_path source)")
    let ?s' = "store_all slugify to_dict d loaded s0"
    have ing: "DeclaredFile_ingest slugify to_dict from_csv d source s0 = (raised, ?s')"
      by (simp add: DeclaredFile_ingest_def src hook store_all_def)
    have f: "wf_world ?s'
       \<and> co_root (collections (fst ?s')) = co_root (collections (fst s0))
       \<and> (\<forall>p x. content (snd ?s') p \<noteq> content (snd s0) p
             \<longrightarrow> p \<noteq> path_join (path_join (co_root (collections (fst s0))) slug) x)"
      using Cons.prems(1) ne by (rule store_all_changes)
    show ?thesis
    proof (cases raised)
      case (Some e)
      then have "s1 = ?s'" using Cons.prems(3) by (simp add: a Inr ing)
      then show ?thesis using f by simp
    next
      case None
      then have r: "Store_ingest_all slugify to_dict from_csv ds1 data_folder ?s' = (r, s1)"
        using Cons.prems(3) by (simp add: a Inr ing)
      have ih: "wf_world s1
       \<and> co_root (collections (fst s1)) = co_root (collections (fst ?s'))
       \<and> (\<forall>p x. content (snd s1) p \<noteq> content (snd ?s') p
             \<longrightarrow> p \<noteq> path_join (path_join (co_root (collections (fst ?s'))) slug) x)"
        using conjunct1 [OF f] rest r by (rule Cons.IH)
      have both: "p \<noteq> path_join (path_join (co_root (collections (fst s0))) slug) x"
        if c: "content (snd s1) p \<noteq> content (snd s0) p" for p x
      proof (cases "content (snd ?s') p = content (snd s0) p")
        case True
        then have "content (snd s1) p \<noteq> content (snd ?s') p" using c by simp
        then have "p \<noteq> path_join (path_join (co_root (collections (fst ?s'))) slug) x" using ih by blast
        then show ?thesis using f by simp
      next
        case False
        then show ?thesis using f by blast
      qed
      have root: "co_root (collections (fst s1)) = co_root (collections (fst s0))" using ih f by simp
      show ?thesis using ih root both by blast
    qed
  qed
qed

lemma cleared_locations_in_folder:
  assumes w: "wf_world s" and p: "p \<in> cleared_locations slugify c s"
  shows "\<exists>x. p = path_join (path_join (co_root (collections (fst s))) (slugify c)) x"
proof -
  obtain st fs where s: "s = (st, fs)" by (cases s)
  obtain cobj reg fs1 where c: "CollectionRegistry_get slugify c (collections st, fs) = (cobj, reg, fs1)"
    by (cases "CollectionRegistry_get slugify c (collections st, fs)")
  note a = wf_CollectionRegistry_get [OF w [unfolded s] c]
  have "p \<in> location ` set (Registry_iter (cl_resources (clusters cobj)))"
    using p by (simp add: cleared_locations_def s c)
  then show ?thesis
    using conjunct1 [OF conjunct2 [OF a]]
    by (force simp: wf_collection_def list_all_iff Registry_iter_def s)
qed

text \<open>
  C9. When the descriptors before \<open>d\<close> have been ingested and the CSV source of \<open>d\<close>
  raises after yielding some items (none, when the file is missing), \<open>ingest_all\<close> ends with
  that exception, the descriptors after \<open>d\<close> are not run, and the state is the one reached
  at the raise: the earlier descriptors' writes, the \<open>pre_ingest\<close> of \<open>d\<close> and the items
  stored before the exception, with nothing undone. With the default \<open>pre_ingest\<close> every
  file still starts with the lines it held after the earlier descriptors. When the
  \<open>pre_ingest\<close> of \<open>d\<close> clears a collection, as that of the last descriptor of the table
  does, and the earlier descriptors keep the default \<open>pre_ingest\<close> and store into
  collections with other slugs, every file that the earlier descriptors wrote to in this
  run still starts with the lines it held after them: the records they wrote remain.
\<close>

theorem ingest_all_aborts_without_rollback:
  assumes earlier: "Store_ingest_all slugify to_dict from_csv ds1 data_folder s0 = (None, s1)"
    and init: "DeclaredFile_init d data_folder = Inr source"
    and src: "from_csv (sf_model source) (SourceFile_path source) = (loaded, Some e)"
    and final: "s' = fold (\<lambda>current. Store_store_item slugify to_dict current
                        (resolve_collection d current) (resolve_cluster d current) (resolve_key d current))
                    loaded (pre_ingest d s1)"
  shows "Store_ingest_all slugify to_dict from_csv (ds1 @ (n, d) # ds2) data_folder s0 = (Some e, s')
       \<and> (pre_ingest d = (\<lambda>s. s) \<longrightarrow> (\<forall>p. prefix (content (snd s1) p) (content (snd s') p)))
       \<and> (pre_ingest d = Store_clear_collection slugify c \<and> wf_world s0
            \<and> list_all (\<lambda>e. pre_ingest (snd e) = (\<lambda>s. s)
                  \<and> (\<forall>i. slugify (resolve_collection (snd e) i) \<noteq> slugify c)) ds1 \<longrightarrow>
            (\<forall>p. content (snd s1) p \<noteq> content (snd s0) p \<longrightarrow>
                 prefix (content (snd s1) p) (content (snd s') p)))"
proof (intro conjI impI allI)
  have "DeclaredFile_ingest slugify to_dict from_csv d source s1 = (Some e, s')"
    by (simp add: DeclaredFile_ingest_def src final)
  then have "Store_ingest_all slugify to_dict from_csv ((n, d) # ds2) data_folder s1 = (Some e, s')"
    by (simp add: init)
  then show "Store_ingest_all slugify to_dict from_csv (ds1 @ (n, d) # ds2) data_folder s0 = (Some e, s')"
    by (simp add: Store_ingest_all_append earlier)
next
  fix p assume "pre_ingest d = (\<lambda>s. s)"
  then show "prefix (content (snd s1) p) (content (snd s') p)"
    unfolding final by (simp add: fold_Store_store_item_content)
next
  fix p
  assume h: "pre_ingest d = Store_clear_collection slugify c \<and> wf_world s0
            \<and> list_all (\<lambda>e. pre_ingest (snd e) = (\<lambda>s. s)
                  \<and> (\<forall>i. slugify (resolve_collection (snd e) i) \<noteq> slugify c)) ds1"
    and ch: "content (snd s1) p \<noteq> content (snd s0) p"
  note x = Store_ingest_all_changes [OF conjunct1 [OF conjunct2 [OF h]] conjunct2 [OF conjunct2 [OF h]] earlier]
  have w1: "wf_world s1" using x by simp
  have "p \<notin> cleared_locations slugify c s1"
  proof
    assume "p \<in> cleared_locations slugify c s1"
    from cleared_locations_in_folder [OF w1 this] obtain y where
      "p = path_join (path_join (co_root (collections (fst s1))) (slugify c)) y" ..
    moreover have "co_root (collections (fst s1)) = co_root (collections (fst s0))" using x by blast
    ultimately show False using x ch by simp
  qed
  then have "content (snd (pre_ingest d s1)) p = content (snd s1) p"
    using h by (simp add: Store_clear_collection_content)
  then show "prefix (content (snd s1) p) (content (snd s') p)"
    unfolding final using fold_Store_store_item_content [of "pre_ingest d s1" p] by simp
qed

lemmas ingest_defs =
  DeclaredFile_init_def SourceFile_init_def pyarg_of_def Path_def DeclaredFile_ingest_def
  SourceFile_path_def SourceFile_filename_def replace_def broken_csv_def csv_without_schedules_def
  content_def sample_slugify_def lower_def running_store_def

lemma wf_running_store: "wf_world running_store"
  unfolding running_store_def by (rule wf_Store_store_item) (rule wf_world_Store_init)

lemma first_four_ingested:
  "fst (Store_ingest_all sample_slugify code csv_without_schedules
     [(''currencies'', store_CurrencyFile), (''currency_holidays'', store_CurrencyHolidayFile),
      (''markets'', store_MarketFile), (''holidays'', store_MarketHolidayFile)]
     (RootStr ''data'') running_store) = None"
  by (simp add: ingest_defs descriptor_defs path_join_def split: prod.splits)

lemma first_four_content:
  "content (snd (snd (Store_ingest_all sample_slugify code csv_without_schedules
     [(''currencies'', store_CurrencyFile), (''currency_holidays'', store_CurrencyHolidayFile),
      (''markets'', store_MarketFile), (''holidays'', store_MarketHolidayFile)]
     (RootStr ''data'') running_store)))
     [''store'', ''currencies'', ''unique.dat''] = [(Some ''USD'', ''USD''), (Some ''EUR'', ''EUR'')]"
  by (simp add: ingest_defs descriptor_defs hierarchy_defs usd_def eur_def)

lemma first_four_run:
  "Store_ingest_all sample_slugify code csv_without_schedules
     [(''currencies'', store_CurrencyFile), (''currency_holidays'', store_CurrencyHolidayFile),
      (''markets'', store_MarketFile), (''holidays'', store_MarketHolidayFile)]
     (RootStr ''data'') running_store
   = (None, snd (Store_ingest_all sample_slugify code csv_without_schedules
     [(''currencies'', store_CurrencyFile), (''currency_holidays'', store_CurrencyHolidayFile),
      (''markets'', store_MarketFile), (''holidays'', store_MarketHolidayFile)]
     (RootStr ''data'') running_store))"
  by (simp only: prod_eq_iff fst_conv snd_conv first_four_ingested)

lemma first_four_hooks:
  "list_all (\<lambda>e. pre_ingest (snd e) = (\<lambda>s. s)
              \<and> (\<forall>i. sample_slugify (resolve_collection (snd e) i) \<noteq> sample_slugify ''schedules''))
     [(''currencies'', store_CurrencyFile :: string declared_file),
      (''currency_holidays'', store_CurrencyHolidayFile),
      (''markets'', store_MarketFile), (''holidays'', store_MarketHolidayFile)]"
  by (simp add: descriptor_defs sample_slugify_def lower_def)

lemma running_store_content:
  "content (snd running_store) [''store'', ''currencies'', ''unique.dat''] = []
   \<and> content (snd running_store) [''store'', ''schedules'', ''us-nyse.dat''] = [(None, ''USD'')]"
  by (simp add: ingest_defs hierarchy_defs usd_def)

lemma schedules_source:
  "DeclaredFile_init (store_ScheduleFile sample_slugify :: string declared_file) (RootStr ''data'')
     = Inr \<lparr>sf_name = ''schedules'', sf_root = [''data''], sf_model = Schedule\<rparr>
   \<and> csv_without_schedules (sf_model \<lparr>sf_name = ''schedules'', sf_root = [''data''], sf_model = Schedule\<rparr>)
        (SourceFile_path \<lparr>sf_name = ''schedules'', sf_root = [''data''], sf_model = Schedule\<rparr>)
     = ([], Some (SourceError ''no such file''))"
  by (simp add: ingest_defs descriptor_defs path_join_def)

lemma schedules_cleared:
  "content (snd (snd (Store_ingest_all sample_slugify code csv_without_schedules
      (store_known_files (loaded_tables sample_slugify)) (RootStr ''data'') running_store)))
     [''store'', ''schedules'', ''us-nyse.dat''] = []"
  by (simp add: loaded_tables_def ingest_defs descriptor_defs hierarchy_defs usd_def eur_def)

lemma currencies_run:
  "Store_ingest_all sample_slugify code broken_csv [(''currencies'', store_CurrencyFile)]
     (RootStr ''data'') running_store
   = (None, snd (Store_ingest_all sample_slugify code broken_csv [(''currencies'', store_CurrencyFile)]
                   (RootStr ''data'') running_store))"
  by (simp add: ingest_defs descriptor_defs path_join_def split: prod.splits)

lemma currencies_content:
  "content (snd (snd (Store_ingest_all sample_slugify code broken_csv [(''currencies'', store_CurrencyFile)]
                   (RootStr ''data'') running_store)))
     [''store'', ''currencies'', ''unique.dat''] = [(Some ''USD'', ''USD''), (Some ''EUR'', ''EUR'')]"
  by (simp add: ingest_defs descriptor_defs hierarchy_defs usd_def eur_def)

lemma currency_holidays_source:
  "DeclaredFile_init (store_CurrencyHolidayFile :: string declared_file) (RootStr ''data'')
     = Inr \<lparr>sf_name = ''currency_holidays'', sf_root = [''data''], sf_model = CurrencyHoliday\<rparr>
   \<and> broken_csv (sf_model \<lparr>sf_name = ''currency_holidays'', sf_root = [''data''], sf_model = CurrencyHoliday\<rparr>)
        (SourceFile_path \<lparr>sf_name = ''currency_holidays'', sf_root = [''data''], sf_model = CurrencyHoliday\<rparr>)
     = ([usd], Some (SourceError ''unreadable''))"
  by (simp add: ingest_defs descriptor_defs path_join_def)

theorem ingest_all_aborts_without_rollback_witness:
  "wf_world running_store
   \<and> fst (Store_ingest_all sample_slugify code broken_csv (store_known_files (loaded_tables sample_slugify))
          (RootStr ''data'') running_store) = Some (SourceError ''unreadable'')
   \<and> prefix [(Some ''USD'', ''USD''), (Some ''EUR'', ''EUR'')]
        (content (snd (snd (Store_ingest_all sample_slugify code broken_csv
          (store_known_files (loaded_tables sample_slugify)) (RootStr ''data'') running_store)))
          [''store'', ''currencies'', ''unique.dat''])
   \<and> fst (Store_ingest_all sample_slugify code csv_without_schedules
          (store_known_files (loaded_tables sample_slugify)) (RootStr ''data'') running_store)
       = Some (SourceError ''no such file'')
   \<and> prefix [(Some ''USD'', ''USD''), (Some ''EUR'', ''EUR'')]
        (content (snd (snd (Store_ingest_all sample_slugify code csv_without_schedules
          (store_known_files (loaded_tables sample_slugify)) (RootStr ''data'') running_store)))
          [''store'', ''currencies'', ''unique.dat''])
   \<and> content (snd running_store) [''store'', ''schedules'', ''us-nyse.dat''] = [(None, ''USD'')]
   \<and> content (snd (snd (Store_ingest_all sample_slugify code csv_without_schedules
          (store_known_files (loaded_tables sample_slugify)) (RootStr ''data'') running_store)))
          [''store'', ''schedules'', ''us-nyse.dat''] = []"
proof -
  have table: "store_known_files (loaded_tables sample_slugify) =
      [(''currencies'', store_CurrencyFile)] @ (''currency_holidays'', store_CurrencyHolidayFile) #
      [(''markets'', store_MarketFile), (''holidays'', store_MarketHolidayFile),
       (''schedules'', store_ScheduleFile sample_slugify :: string declared_file)]"
    by (simp add: loaded_tables_def)
  have table2: "store_known_files (loaded_tables sample_slugify) =
      [(''currencies'', store_CurrencyFile), (''currency_holidays'', store_CurrencyHolidayFile),
       (''markets'', store_MarketFile), (''holidays'', store_MarketHolidayFile)]
      @ (''schedules'', store_ScheduleFile sample_slugify :: string declared_file) # []"
    by (simp add: loaded_tables_def)
  have hook1: "pre_ingest (store_CurrencyHolidayFile :: string declared_file) = (\<lambda>s. s)"
    by (simp add: store_CurrencyHolidayFile_def)
  have hook2: "pre_ingest (store_ScheduleFile sample_slugify :: string declared_file)
                 = Store_clear_collection sample_slugify ''schedules''"
    by (simp add: store_ScheduleFile_def)
  note a = ingest_all_aborts_without_rollback
    [OF currencies_run conjunct1 [OF currency_holidays_source] conjunct2 [OF currency_holidays_source] refl,
     of "''currency_holidays''"
        "[(''markets'', store_MarketFile), (''holidays'', store_MarketHolidayFile),
          (''schedules'', store_ScheduleFile sample_slugify)]"]
  note b = ingest_all_aborts_without_rollback
    [OF first_four_run conjunct1 [OF schedules_source] conjunct2 [OF schedules_source] refl,
     of "''schedules''" "[]" "''schedules''"]
  have 1: "fst (Store_ingest_all sample_slugify code broken_csv (store_known_files (loaded_tables sample_slugify))
          (RootStr ''data'') running_store) = Some (SourceError ''unreadable'')"
    unfolding table conjunct1 [OF a] by (rule fst_conv)
  have 2: "prefix [(Some ''USD'', ''USD''), (Some ''EUR'', ''EUR'')]
        (content (snd (snd (Store_ingest_all sample_slugify code broken_csv
          (store_known_files (loaded_tables sample_slugify)) (RootStr ''data'') running_store)))
          [''store'', ''currencies'', ''unique.dat''])"
    unfolding table conjunct1 [OF a] snd_conv
    using spec [OF mp [OF conjunct1 [OF conjunct2 [OF a]] hook1], of "[''store'', ''currencies'', ''unique.dat'']"]
    unfolding currencies_content .
  have 3: "fst (Store_ingest_all sample_slugify code csv_without_schedules
          (store_known_files (loaded_tables sample_slugify)) (RootStr ''data'') running_store)
       = Some (SourceError ''no such file'')"
    unfolding table2 conjunct1 [OF b] by (rule fst_conv)
  have changed: "content (snd (snd (Store_ingest_all sample_slugify code csv_without_schedules
     [(''currencies'', store_CurrencyFile), (''currency_holidays'', store_CurrencyHolidayFile),
      (''markets'', store_MarketFile), (''holidays'', store_MarketHolidayFile)]
     (RootStr ''data'') running_store))) [''store'', ''currencies'', ''unique.dat'']
     \<noteq> content (snd running_store) [''store'', ''currencies'', ''unique.dat'']"
    unfolding first_four_content conjunct1 [OF running_store_content] by simp
  have 4: "prefix [(Some ''USD'', ''USD''), (Some ''EUR'', ''EUR'')]
        (content (snd (snd (Store_ingest_all sample_slugify code csv_without_schedules
          (store_known_files (loaded_tables sample_slugify)) (RootStr ''data'') running_store)))
          [''store'', ''currencies'', ''unique.dat''])"
    unfolding table2 conjunct1 [OF b] snd_conv
    using mp [OF spec [OF mp [OF conjunct2 [OF conjunct2 [OF b]]
                conjI [OF hook2 conjI [OF wf_running_store first_four_hooks]]]] changed]
    unfolding first_four_content .
  from wf_running_store 1 2 3 4 conjunct2 [OF running_store_content] schedules_cleared
  show ?thesis by blast
qed

section \<open>Collection: clear in a new process\<close>

lemmas restart_defs =
  restarted_def earlier_run_def cluster_file_def content_def usd_def eur_def one_schedule_csv_def
  Cluster_load_all_def replay_def

text \<open>
  C6. \<open>Collection.clear\<close> deletes the file of every cluster its registry holds and gives the
  collection an empty registry (lemma \<open>Collection_clear_registered\<close>). That every cluster
  obtained afterwards is empty fails for a file the registry does not hold, whatever
  \<open>slugify\<close> is. In a new process on the directory of an earlier run the registry of
  \<open>schedules\<close> is empty, so \<open>clear_collection("schedules")\<close> deletes nothing: the file of
  the cluster \<open>US.NYSE\<close> keeps the line of the earlier run, the cluster that
  \<open>clusters.get("US.NYSE")\<close> then creates is at that file and loads that line, the next
  \<open>store_item\<close> appends after it, and so does an \<open>ingest_all\<close> of the schedules
  descriptor, whose \<open>pre_ingest\<close> is that clear.
\<close>

theorem clear_misses_files_of_earlier_runs:
  "content (snd (restarted slugify)) (cluster_file slugify (restarted slugify) ''schedules'' ''US.NYSE'')
     = [(None, ''USD'')]
   \<and> content (snd (Store_clear_collection slugify ''schedules'' (restarted slugify)))
         (cluster_file slugify (restarted slugify) ''schedules'' ''US.NYSE'')
     = [(None, ''USD'')]
   \<and> map_of (co_resources (collections (fst (Store_clear_collection slugify ''schedules'' (restarted slugify)))))
         (slugify ''schedules'')
     = Some (Collection_init [''store'', slugify ''schedules''])
   \<and> location (fst (ClusterRegistry_get slugify ''US.NYSE''
         (clusters (Collection_init [''store'', slugify ''schedules'']),
          snd (Store_clear_collection slugify ''schedules'' (restarted slugify)))))
     = cluster_file slugify (restarted slugify) ''schedules'' ''US.NYSE''
   \<and> Cluster_load_all
         (fst (ClusterRegistry_get slugify ''US.NYSE''
            (clusters (Collection_init [''store'', slugify ''schedules'']),
             snd (Store_clear_collection slugify ''schedules'' (restarted slugify)))))
         (snd (snd (ClusterRegistry_get slugify ''US.NYSE''
            (clusters (Collection_init [''store'', slugify ''schedules'']),
             snd (Store_clear_collection slugify ''schedules'' (restarted slugify))))))
     = Inr [(None, ''USD'')]
   \<and> content (snd (Store_store_item slugify code eur ''schedules'' (Some ''US.NYSE'') None
                      (Store_clear_collection slugify ''schedules'' (restarted slugify))))
         (cluster_file slugify (restarted slugify) ''schedules'' ''US.NYSE'')
     = [(None, ''USD''), (None, ''EUR'')]
   \<and> content (snd (snd (Store_ingest_all slugify code one_schedule_csv
                      [(''schedules'', store_ScheduleFile slugify)] (RootStr ''data'') (restarted slugify))))
         (cluster_file slugify (restarted slugify) ''schedules'' ''US.NYSE'')
     = [(None, ''USD''), (None, ''EUR'')]"
proof (intro conjI)
  show "content (snd (restarted slugify)) (cluster_file slugify (restarted slugify) ''schedules'' ''US.NYSE'')
     = [(None, ''USD'')]"
    by (simp add: restart_defs hierarchy_defs)
  show "content (snd (Store_clear_collection slugify ''schedules'' (restarted slugify)))
         (cluster_file slugify (restarted slugify) ''schedules'' ''US.NYSE'')
     = [(None, ''USD'')]"
    by (simp add: restart_defs hierarchy_defs)
  show "map_of (co_resources (collections (fst (Store_clear_collection slugify ''schedules'' (restarted slugify)))))
         (slugify ''schedules'')
     = Some (Collection_init [''store'', slugify ''schedules''])"
    by (simp add: restart_defs hierarchy_defs)
  show "location (fst (ClusterRegistry_get slugify ''US.NYSE''
         (clusters (Collection_init [''store'', slugify ''schedules'']),
          snd (Store_clear_collection slugify ''schedules'' (restarted slugify)))))
     = cluster_file slugify (restarted slugify) ''schedules'' ''US.NYSE''"
    by (simp add: restart_defs hierarchy_defs)
  show "Cluster_load_all
         (fst (ClusterRegistry_get slugify ''US.NYSE''
            (clusters (Collection_init [''store'', slugify ''schedules'']),
             snd (Store_clear_collection slugify ''schedules'' (restarted slugify)))))
         (snd (snd (ClusterRegistry_get slugify ''US.NYSE''
            (clusters (Collection_init [''store'', slugify ''schedules'']),
             snd (Store_clear_collection slugify ''schedules'' (restarted slugify))))))
     = Inr [(None, ''USD'')]"
    by (simp add: restart_defs hierarchy_defs)
  show "content (snd (Store_store_item slugify code eur ''schedules'' (Some ''US.NYSE'') None
                      (Store_clear_collection slugify ''schedules'' (restarted slugify))))
         (cluster_file slugify (restarted slugify) ''schedules'' ''US.NYSE'')
     = [(None, ''USD''), (None, ''EUR'')]"
    by (simp add: restart_defs hierarchy_defs)
  show "content (snd (snd (Store_ingest_all slugify code one_schedule_csv
                      [(''schedules'', store_ScheduleFile slugify)] (RootStr ''data'') (restarted slugify))))
         (cluster_file slugify (restarted slugify) ''schedules'' ''US.NYSE'')
     = [(None, ''USD''), (None, ''EUR'')]"
    by (simp add: restart_defs hierarchy_defs store_ScheduleFile_def DeclaredFile_init_def
        SourceFile_init_def pyarg_of_def Path_def DeclaredFile_ingest_def)
qed

section \<open>DeclaredFile: the tables of the two modules and their readers\<close>

lemma class_statement_own_table:
  assumes "class_statement cls t = Inr t'"
  shows "(\<exists>n. df_name cls = Some n
            \<and> known_files_of (df_module cls) t' = AList.update n cls (known_files_of (df_module cls) t))
       \<and> (\<forall>M. M \<noteq> df_module cls \<longrightarrow> known_files_of M t' = known_files_of M t)"
  using assms
  by (cases "df_module cls")
     (auto simp: class_statement_def DeclaredFile_init_subclass_def known_files_of_def
        split: option.splits py_module.splits)

lemma program_classes:
  "class_statements (store_classes slugify @ catalog_classes slugify)
     \<lparr>store_known_files = [], catalog_known_files = []\<rparr> = Inr (loaded_tables slugify)"
  by (simp add: store_classes_def catalog_classes_def class_statement_def known_files_of_def
      DeclaredFile_init_subclass_def descriptor_defs loaded_tables_def)

text \<open>
  C7 (as amended). \<open>store.py\<close> and \<open>catalog.py\<close> each define a base class \<open>DeclaredFile\<close>
  with its own table \<open>known_files\<close>. Importing the program registers the five descriptor
  classes of each module once, when they are defined, under their names in the table of
  their own module. A class statement enters the class under its name into the table of
  the base class it derives from and leaves the other table as it is. A descriptor
  introduced on the base of \<open>store.py\<close> is enumerated by \<open>Store.ingest_all\<close> and changes
  nothing for \<open>Catalog.find_model_collection\<close>, \<open>Catalog.get\<close> and \<open>Catalog.ingest_all\<close>; one
  introduced on the base of \<open>catalog.py\<close> is enumerated by \<open>Catalog.find_model_collection\<close>
  and \<open>Catalog.ingest_all\<close> and changes nothing for \<open>Store.ingest_all\<close>.
\<close>

theorem one_table_per_module:
  "import_catalog slugify \<lparr>store_known_files = [], catalog_known_files = []\<rparr> = Inr (loaded_tables slugify)
   \<and> class_statements (store_classes slugify @ catalog_classes slugify)
        \<lparr>store_known_files = [], catalog_known_files = []\<rparr> = Inr (loaded_tables slugify)
   \<and> map fst (store_known_files (loaded_tables slugify))
       = [''currencies'', ''currency_holidays'', ''markets'', ''holidays'', ''schedules'']
   \<and> map fst (catalog_known_files (loaded_tables slugify))
       = [''currencies'', ''currency_holidays'', ''markets'', ''holidays'', ''schedules'']
   \<and> map snd (store_known_files (loaded_tables slugify)) = store_classes slugify
   \<and> map snd (catalog_known_files (loaded_tables slugify)) = catalog_classes slugify
   \<and> (class_statement cls t = Inr t' \<longrightarrow>
        (\<exists>n. df_name cls = Some n
            \<and> known_files_of (df_module cls) t' = AList.update n cls (known_files_of (df_module cls) t))
        \<and> (\<forall>M. M \<noteq> df_module cls \<longrightarrow> known_files_of M t' = known_files_of M t))
   \<and> (class_statement cls t = Inr t' \<and> df_module cls = StoreModule \<longrightarrow>
        program_find_model_collection slugify t' m s = program_find_model_collection slugify t m s
        \<and> program_Catalog_get slugify t' from_tuple m key cluster s
            = program_Catalog_get slugify t from_tuple m key cluster s
        \<and> program_Catalog_ingest_all load_iter to_tuple store_tuple flush remote_folder t' csv_folder s
            = program_Catalog_ingest_all load_iter to_tuple store_tuple flush remote_folder t csv_folder s
        \<and> (\<exists>n. df_name cls = Some n
              \<and> program_Store_ingest_all slugify to_dict from_csv t' data_folder s
                  = Store_ingest_all slugify to_dict from_csv
                      (AList.update n cls (store_known_files t)) data_folder s))
   \<and> (class_statement cls t = Inr t' \<and> df_module cls = CatalogModule \<longrightarrow>
        program_Store_ingest_all slugify to_dict from_csv t' data_folder s
          = program_Store_ingest_all slugify to_dict from_csv t data_folder s
        \<and> (\<exists>n. df_name cls = Some n
              \<and> program_find_model_collection slugify t' m s
                  = find_model_collection slugify (AList.update n cls (catalog_known_files t)) m s
              \<and> program_Catalog_ingest_all load_iter to_tuple store_tuple flush remote_folder t' csv_folder s
                  = Catalog_ingest_all load_iter to_tuple store_tuple flush remote_folder
                      (AList.update n cls (catalog_known_files t)) csv_folder s))"
proof -
  have 1: "import_catalog slugify \<lparr>store_known_files = [], catalog_known_files = []\<rparr> = Inr (loaded_tables slugify)"
    by (simp add: import_catalog_def import_store_def define_store_classes define_catalog_classes)
  have 2: "map fst (store_known_files (loaded_tables slugify))
       = [''currencies'', ''currency_holidays'', ''markets'', ''holidays'', ''schedules'']"
    by (simp add: loaded_tables_def)
  have 3: "map fst (catalog_known_files (loaded_tables slugify))
       = [''currencies'', ''currency_holidays'', ''markets'', ''holidays'', ''schedules'']"
    by (simp add: loaded_tables_def)
  have 4: "map snd (store_known_files (loaded_tables slugify)) = store_classes slugify"
    by (simp add: loaded_tables_def store_classes_def)
  have 5: "map snd (catalog_known_files (loaded_tables slugify)) = catalog_classes slugify"
    by (simp add: loaded_tables_def catalog_classes_def)
  have 6: "(\<exists>n. df_name cls = Some n
            \<and> known_files_of (df_module cls) t' = AList.update n cls (known_files_of (df_module cls) t))
        \<and> (\<forall>M. M \<noteq> df_module cls \<longrightarrow> known_files_of M t' = known_files_of M t)"
    if "class_statement cls t = Inr t'"
    using that by (rule class_statement_own_table)
  have 7: "program_find_model_collection slugify t' m s = program_find_model_collection slugify t m s
        \<and> program_Catalog_get slugify t' from_tuple m key cluster s
            = program_Catalog_get slugify t from_tuple m key cluster s
        \<and> program_Catalog_ingest_all load_iter to_tuple store_tuple flush remote_folder t' csv_folder s
            = program_Catalog_ingest_all load_iter to_tuple store_tuple flush remote_folder t csv_folder s
        \<and> (\<exists>n. df_name cls = Some n
              \<and> program_Store_ingest_all slugify to_dict from_csv t' data_folder s
                  = Store_ingest_all slugify to_dict from_csv
                      (AList.update n cls (store_known_files t)) data_folder s)"
    if h: "class_statement cls t = Inr t' \<and> df_module cls = StoreModule"
  proof -
    from class_statement_own_table [OF conjunct1 [OF h]] obtain n where
      n: "df_name cls = Some n"
      and own: "known_files_of StoreModule t' = AList.update n cls (known_files_of StoreModule t)"
      and other: "known_files_of CatalogModule t' = known_files_of CatalogModule t"
      using h by auto
    show ?thesis
      using n own other
      by (simp add: program_find_model_collection_def program_Catalog_get_def
          program_Catalog_ingest_all_def program_Store_ingest_all_def)
         (simp add: known_files_of_def)
  qed
  have 8: "program_Store_ingest_all slugify to_dict from_csv t' data_folder s
          = program_Store_ingest_all slugify to_dict from_csv t data_folder s
        \<and> (\<exists>n. df_name cls = Some n
              \<and> program_find_model_collection slugify t' m s
                  = find_model_collection slugify (AList.update n cls (catalog_known_files t)) m s
              \<and> program_Catalog_ingest_all load_iter to_tuple store_tuple flush remote_folder t' csv_folder s
                  = Catalog_ingest_all load_iter to_tuple store_tuple flush remote_folder
                      (AList.update n cls (catalog_known_files t)) csv_folder s)"
    if h: "class_statement cls t = Inr t' \<and> df_module cls = CatalogModule"
  proof -
    from class_statement_own_table [OF conjunct1 [OF h]] obtain n where
      n: "df_name cls = Some n"
      and own: "known_files_of CatalogModule t' = AList.update n cls (known_files_of CatalogModule t)"
      and other: "known_files_of StoreModule t' = known_files_of StoreModule t"
      using h by auto
    show ?thesis
      using n own other
      by (simp add: program_find_model_collection_def program_Catalog_get_def
          program_Catalog_ingest_all_def program_Store_ingest_all_def)
         (simp add: known_files_of_def)
  qed
  from 1 program_classes 2 3 4 5 6 7 8 show ?thesis by blast
qed

lemmas program_defs =
  program_find_model_collection_def program_Catalog_get_def program_Store_ingest_all_def
  known_files_of_def with_IndexFile_def IndexFile_def loaded_tables_def

lemma store_IndexFile_registered:
  "class_statement (IndexFile StoreModule) (loaded_tables sample_slugify) = Inr (with_IndexFile StoreModule)
   \<and> df_module (IndexFile StoreModule :: string declared_file) = StoreModule"
  by (simp add: class_statement_def DeclaredFile_init_subclass_def program_defs)

lemma catalog_IndexFile_registered:
  "class_statement (IndexFile CatalogModule) (loaded_tables sample_slugify) = Inr (with_IndexFile CatalogModule)
   \<and> df_module (IndexFile CatalogModule :: string declared_file) = CatalogModule"
  by (simp add: class_statement_def DeclaredFile_init_subclass_def program_defs)

lemma Index_not_in_catalog:
  "program_find_model_collection sample_slugify (loaded_tables sample_slugify) (OtherModel ''Index'')
     running_store = None"
  by (simp add: program_defs descriptor_defs)

lemma Index_ingested_by_store:
  "content (snd (snd (program_Store_ingest_all sample_slugify code one_schedule_csv
      (with_IndexFile StoreModule) (RootStr ''data'') running_store)))
     [''store'', ''indices'', ''unique.dat''] = [(Some ''EUR'', ''EUR'')]"
  by (simp add: program_defs descriptor_defs ingest_defs hierarchy_defs one_schedule_csv_def usd_def eur_def)

theorem one_table_per_module_witness:
  "class_statement (IndexFile StoreModule) (loaded_tables sample_slugify) = Inr (with_IndexFile StoreModule)
   \<and> program_find_model_collection sample_slugify (with_IndexFile StoreModule) (OtherModel ''Index'')
        running_store = None
   \<and> class_statement (IndexFile CatalogModule) (loaded_tables sample_slugify) = Inr (with_IndexFile CatalogModule)
   \<and> program_Store_ingest_all sample_slugify code one_schedule_csv (with_IndexFile CatalogModule)
        (RootStr ''data'') running_store
      = program_Store_ingest_all sample_slugify code one_schedule_csv (loaded_tables sample_slugify)
        (RootStr ''data'') running_store"
proof -
  note a = one_table_per_module [where slugify = sample_slugify and cls = "IndexFile StoreModule"
      and t = "loaded_tables sample_slugify" and t' = "with_IndexFile StoreModule"
      and m = "OtherModel ''Index''" and s = running_store]
  note b = one_table_per_module [where slugify = sample_slugify and cls = "IndexFile CatalogModule"
      and t = "loaded_tables sample_slugify" and t' = "with_IndexFile CatalogModule"
      and s = running_store and to_dict = code and from_csv = one_schedule_csv
      and data_folder = "RootStr ''data''"]
  note a8 = a [THEN conjunct2, THEN conjunct2, THEN conjunct2, THEN conjunct2, THEN conjunct2,
      THEN conjunct2, THEN conjunct2, THEN conjunct1, THEN mp, OF store_IndexFile_registered]
  note b9 = b [THEN conjunct2, THEN conjunct2, THEN conjunct2, THEN conjunct2, THEN conjunct2,
      THEN conjunct2, THEN conjunct2, THEN conjunct2, THEN mp, OF catalog_IndexFile_registered]
  have 1: "program_find_model_collection sample_slugify (with_IndexFile StoreModule) (OtherModel ''Index'')
        running_store = None"
    using conjunct1 [OF a8] Index_not_in_catalog by simp
  from conjunct1 [OF store_IndexFile_registered] 1 conjunct1 [OF catalog_IndexFile_registered]
    conjunct1 [OF b9]
  show ?thesis by blast
qed

text \<open>
  C7 as stated fails: after the import there are two tables, and they differ; the class
  \<open>CurrencyFile\<close> of \<open>store.py\<close> is registered and is not what the table of \<open>catalog.py\<close>
  holds under its name. A descriptor for a further model, introduced on the base of
  \<open>store.py\<close>, is registered in the table of \<open>store.py\<close> only: \<open>Store.ingest_all\<close> ingests
  its rows, \<open>Catalog.find_model_collection\<close> does not find it, and \<open>Catalog.get\<close> for its
  model raises \<open>AttributeError\<close>.
\<close>

theorem single_table_counterexample:
  "import_catalog sample_slugify \<lparr>store_known_files = [], catalog_known_files = []\<rparr>
     = Inr (loaded_tables sample_slugify :: string tables)
   \<and> store_known_files (loaded_tables sample_slugify :: string tables)
       \<noteq> catalog_known_files (loaded_tables sample_slugify)
   \<and> map_of (store_known_files (loaded_tables sample_slugify :: string tables)) ''currencies''
       = Some store_CurrencyFile
   \<and> map_of (catalog_known_files (loaded_tables sample_slugify :: string tables)) ''currencies''
       \<noteq> Some store_CurrencyFile
   \<and> class_statement (IndexFile StoreModule) (loaded_tables sample_slugify) = Inr (with_IndexFile StoreModule)
   \<and> map_of (store_known_files (with_IndexFile StoreModule)) ''indices'' = Some (IndexFile StoreModule)
   \<and> map_of (catalog_known_files (with_IndexFile StoreModule)) ''indices'' = None
   \<and> content (snd (snd (program_Store_ingest_all sample_slugify code one_schedule_csv
        (with_IndexFile StoreModule) (RootStr ''data'') running_store)))
        [''store'', ''indices'', ''unique.dat''] = [(Some ''EUR'', ''EUR'')]
   \<and> program_find_model_collection sample_slugify (with_IndexFile StoreModule) (OtherModel ''Index'')
        running_store = None
   \<and> fst (program_Catalog_get sample_slugify (with_IndexFile StoreModule) id (OtherModel ''Index'')
        ''EUR'' None running_store)
       = Inl (AttributeError ''NoneType object has no attribute clusters'')"
proof -
  have 1: "import_catalog sample_slugify \<lparr>store_known_files = [], catalog_known_files = []\<rparr>
     = Inr (loaded_tables sample_slugify :: string tables)"
    by (simp add: import_catalog_def import_store_def define_store_classes define_catalog_classes)
  have 2: "store_known_files (loaded_tables sample_slugify :: string tables)
       \<noteq> catalog_known_files (loaded_tables sample_slugify)"
    by (simp add: loaded_tables_def descriptor_defs)
  have 3: "map_of (store_known_files (loaded_tables sample_slugify :: string tables)) ''currencies''
       = Some store_CurrencyFile"
    by (simp add: loaded_tables_def)
  have 4: "map_of (catalog_known_files (loaded_tables sample_slugify :: string tables)) ''currencies''
       \<noteq> Some store_CurrencyFile"
    by (simp add: loaded_tables_def descriptor_defs)
  have 6: "map_of (store_known_files (with_IndexFile StoreModule)) ''indices'' = Some (IndexFile StoreModule)"
    by (simp add: with_IndexFile_def loaded_tables_def)
  have 7: "map_of (catalog_known_files (with_IndexFile StoreModule)) ''indices'' = None"
    by (simp add: with_IndexFile_def loaded_tables_def)
  have 9: "program_find_model_collection sample_slugify (with_IndexFile StoreModule) (OtherModel ''Index'')
        running_store = None"
    by (simp add: program_defs descriptor_defs)
  have 10: "fst (program_Catalog_get sample_slugify (with_IndexFile StoreModule) id (OtherModel ''Index'')
        ''EUR'' None running_store)
       = Inl (AttributeError ''NoneType object has no attribute clusters'')"
    by (simp add: program_defs descriptor_defs Catalog_get_def)
  from 1 2 3 4 conjunct1 [OF store_IndexFile_registered] 6 7 Index_ingested_by_store 9 10
  show ?thesis by blast
qed

end
